theory Spec2Isabelle
  imports Main "HOL-Library.Word"
begin

unbundle bit_operations_syntax

section \<open>Strings as the script sees them\<close>

text \<open>
  A JavaScript string is a sequence of UTF-16 code units. The model uses \<^typ>\<open>string\<close>
  and reads a \<^typ>\<open>char\<close> as the code unit of the same number, so it covers the strings
  whose code units are below 256 (ASCII and Latin-1), which is what the alert sheets hold.
  Cells of the text columns are strings (\<open>getValues\<close> returns the empty string for a
  blank cell, never \<open>null\<close>), checkbox cells are booleans and row numbers are naturals.
  A tab returns what was written to it: a token that consists of digits only is read back
  as the text it was, not as a number.
\<close>

text \<open>\<open>String.prototype.trim\<close> and the class \<open>\s\<close>: tab, line feed, vertical tab, form
  feed, carriage return, space and no-break space are the white space below 256.\<close>

definition isWhiteSpace :: "char \<Rightarrow> bool" where
  "isWhiteSpace c = (of_char c \<in> {9, 10, 11, 12, 13, 32, 160 :: nat})"

definition trim :: "string \<Rightarrow> string" where
  "trim s = rev (dropWhile isWhiteSpace (rev (dropWhile isWhiteSpace s)))"

text \<open>\<open>toLowerCase\<close> on one code unit: A-Z and the accented capitals of Latin-1.\<close>

definition lowerChar :: "char \<Rightarrow> char" where
  "lowerChar c =
     (let n = of_char c :: nat in
      if (65 \<le> n \<and> n \<le> 90) \<or> (192 \<le> n \<and> n \<le> 214) \<or> (216 \<le> n \<and> n \<le> 222)
      then char_of (n + 32) else c)"

definition toLowerCase :: "string \<Rightarrow> string" where
  "toLowerCase s = map lowerChar s"

text \<open>\<open>s.replace(/\s+/g, "")\<close> deletes every white-space code unit.\<close>

definition removeWhiteSpace :: "string \<Rightarrow> string" where
  "removeWhiteSpace s = filter (\<lambda>c. \<not> isWhiteSpace c) s"

definition startsWith :: "string \<Rightarrow> string \<Rightarrow> bool" where
  "startsWith s p = (take (length p) s = p)"

text \<open>\<open>Number.prototype.toString(radix)\<close> on a non-negative integer; radix 10 is also
  what string concatenation does to a row number.\<close>

definition digitChar :: "nat \<Rightarrow> char" where
  "digitChar d = ''0123456789abcdefghijklmnopqrstuvwxyz'' ! d"

function toStringRadix :: "nat \<Rightarrow> nat \<Rightarrow> string" where
  "toStringRadix b n =
     (if b < 2 \<or> n < b then [digitChar n]
      else toStringRadix b (n div b) @ [digitChar (n mod b)])"
  by pat_completeness auto
termination
  by (relation "measure (\<lambda>(b, n). n)") auto

declare toStringRadix.simps [simp del]

definition numToString :: "nat \<Rightarrow> string" where
  "numToString n = toStringRadix 10 n"

text \<open>\<open>arr.join(sep)\<close>\<close>

fun join :: "string \<Rightarrow> string list \<Rightarrow> string" where
  "join sep [] = []"
| "join sep [x] = x"
| "join sep (x # y # ys) = x @ sep @ join sep (y # ys)"

section \<open>Fingerprinting\<close>

text \<open>One row of the LiveRamp Alerts tab, columns A to G.\<close>

record lr_row =
  lrDate :: string
  lrProduct :: string
  lrWorkflow :: string
  lrIssue :: string
  lrRequest :: string
  lrComment :: string
  lrResolved :: bool

text \<open>\<open>String(c || "")\<close> on a checkbox cell: \<open>false\<close> is falsy and becomes the empty string.\<close>

definition boolCell :: "bool \<Rightarrow> string" where
  "boolCell b = (if b then ''true'' else [])"

text \<open>
  Isabelle names cannot end in an underscore, so \<open>simpleHash_\<close>, \<open>computeThreadKey_\<close>
  and the other private functions of the script appear without it.

  \<open>simpleHash\<close>: \<open>hash = ((hash << 5) - hash) + char; hash = hash & hash\<close>. At the start
  of each round \<open>hash\<close> is a 32-bit integer, the subtraction and the addition are exact in
  double precision, and \<open>&\<close> wraps the result to 32 bits again, so each round is the same
  arithmetic on a 32-bit word. \<open>Math.abs\<close> acts on the signed reading of the word.
\<close>

definition hashStep :: "32 word \<Rightarrow> char \<Rightarrow> 32 word" where
  "hashStep hash c = (let h = (push_bit 5 hash - hash) + of_char c in h AND h)"

definition simpleHash :: "string \<Rightarrow> string" where
  "simpleHash str = toStringRadix 36 (nat \<bar>sint (foldl hashStep 0 str)\<bar>)"

definition computeThreadKey :: "lr_row \<Rightarrow> string" where
  "computeThreadKey row =
     simpleHash (lrProduct row @ ''|'' @ lrWorkflow row @ ''|'' @ lrIssue row @ ''|'' @ lrRequest row)"

definition computeRowHash :: "lr_row \<Rightarrow> string" where
  "computeRowHash row =
     simpleHash (join ''|'' [lrDate row, lrProduct row, lrWorkflow row, lrIssue row,
                              lrRequest row, lrComment row, boolCell (lrResolved row)])"

section \<open>The stored tables\<close>

text \<open>
  A row of Raw_Alerts: the seven LiveRamp columns (copied one by one by the script, kept
  together here) and the six metadata columns.
\<close>

record raw_row =
  rawLr :: lr_row
  rawSyncedAt :: string
  rawThreadKey :: string
  rawRowHash :: string
  rawSourceRow :: nat
  rawFirstSeen :: string
  rawLastSeen :: string

text \<open>
  Column K of Working_Alerts (HMI_Composed_Update) holds either a text written by the
  script or the sheet formula
  \<open>=IF(AND($I<>"",$J<>""),$I&", "&$J,IF($I<>"",$I,$J))\<close> over the template (column I) and
  the free text (column J) of the same row.
\<close>

datatype composed_cell = Literal string | Formula

record wa_row =
  waLr :: lr_row
  waGroup :: string
  waTemplate :: string
  waFreeText :: string
  waComposed :: composed_cell
  waPushReady :: bool
  waLastPushedAt :: string
  waLastPushedText :: string
  waReadyToResolve :: bool
  waLrUpdatedAfterRes :: bool
  waNotes :: string
  waThreadKey :: string
  waRowHash :: string
  waSourceRow :: nat

definition formulaValue :: "string \<Rightarrow> string \<Rightarrow> string" where
  "formulaValue i j = (if i \<noteq> [] \<and> j \<noteq> [] then i @ '', '' @ j else if i \<noteq> [] then i else j)"

text \<open>What \<open>getValues\<close> returns for column K of a row.\<close>

definition waComposedValue :: "wa_row \<Rightarrow> string" where
  "waComposedValue w =
     (case waComposed w of Literal s \<Rightarrow> s | Formula \<Rightarrow> formulaValue (waTemplate w) (waFreeText w))"

text \<open>The tabs of the tracker's own spreadsheet; \<open>None\<close> is a tab that does not exist.
  The list of a tab is its data rows (from row 2 of Raw_Alerts, from row 3 of
  Working_Alerts), which each sync replaces as a whole.\<close>

record push_log_row =
  logTimestamp :: string
  logMode :: string
  logConsidered :: nat
  logPushed :: nat
  logSkippedNoChange :: nat
  logSkippedNotReady :: nat
  logErrorStr :: string
  logNotes :: string
  logRunId :: string

record store =
  rawSheet :: "raw_row list option"
  waSheet :: "wa_row list option"
  pushLog :: "push_log_row list option"

section \<open>Sync engine\<close>

subsection \<open>Lookups of the previous state\<close>

text \<open>\<open>threadKey + "|" + sourceRow\<close>\<close>

definition compositeKey :: "string \<Rightarrow> nat \<Rightarrow> string" where
  "compositeKey threadKey sourceRow = threadKey @ ''|'' @ numToString sourceRow"

definition loadPreviousRawData :: "raw_row list \<Rightarrow> (string \<rightharpoonup> string)" where
  "loadPreviousRawData data =
     foldl (\<lambda>m row. m(compositeKey (rawThreadKey row) (rawSourceRow row) \<mapsto> rawFirstSeen row))
           Map.empty data"

text \<open>The object stored per key by \<open>loadExistingWorkingAlerts_\<close>.\<close>

record wa_entry =
  exGroup :: string
  exTemplate :: string
  exFreeText :: string
  exComposed :: string
  exPushReady :: bool
  exLastPushedAt :: string
  exLastPushedText :: string
  exReadyToResolve :: bool
  exLrUpdatedAfterRes :: bool
  exNotes :: string
  exRowHash :: string

definition waEntry :: "wa_row \<Rightarrow> wa_entry" where
  "waEntry row =
     \<lparr> exGroup = waGroup row, exTemplate = waTemplate row, exFreeText = waFreeText row,
       exComposed = waComposedValue row, exPushReady = waPushReady row,
       exLastPushedAt = waLastPushedAt row, exLastPushedText = waLastPushedText row,
       exReadyToResolve = waReadyToResolve row,
       exLrUpdatedAfterRes = waLrUpdatedAfterRes row, exNotes = waNotes row,
       exRowHash = waRowHash row \<rparr>"

text \<open>\<open>map[compositeKey] = {...}\<close> for each row in turn: a later row with the same key
  replaces the earlier one.\<close>

definition loadExistingWorkingAlerts :: "wa_row list \<Rightarrow> (string \<rightharpoonup> wa_entry)" where
  "loadExistingWorkingAlerts data =
     foldl (\<lambda>m row. m(compositeKey (waThreadKey row) (waSourceRow row) \<mapsto> waEntry row))
           Map.empty data"

subsection \<open>Mirroring the fetched rows\<close>

text \<open>\<open>if (!row[0] && !row[1] && !row[2]) return;\<close>\<close>

definition skipRow :: "lr_row \<Rightarrow> bool" where
  "skipRow row = (lrDate row = [] \<and> lrProduct row = [] \<and> lrWorkflow row = [])"

definition mirrorRow :: "(string \<rightharpoonup> string) \<Rightarrow> string \<Rightarrow> nat \<Rightarrow> lr_row \<Rightarrow> raw_row" where
  "mirrorRow previousRawData syncTime sourceRowNum row =
     (let threadKey = computeThreadKey row;
          rowHash = computeRowHash row;
          histKey = threadKey @ ''|'' @ numToString sourceRowNum;
          firstSeen = (case previousRawData histKey of Some prev \<Rightarrow> prev | None \<Rightarrow> syncTime)
      in \<lparr> rawLr = row, rawSyncedAt = syncTime, rawThreadKey = threadKey, rawRowHash = rowHash,
           rawSourceRow = sourceRowNum, rawFirstSeen = firstSeen, rawLastSeen = syncTime \<rparr>)"

text \<open>The body of \<open>lrData.forEach((row, idx) => ...)\<close>, with \<open>idx\<close> counted up.\<close>

fun processRows :: "(string \<rightharpoonup> string) \<Rightarrow> string \<Rightarrow> nat \<Rightarrow> nat \<Rightarrow> lr_row list \<Rightarrow> raw_row list" where
  "processRows previousRawData syncTime headerRow idx [] = []"
| "processRows previousRawData syncTime headerRow idx (row # rest) =
     (if skipRow row then processRows previousRawData syncTime headerRow (Suc idx) rest
      else mirrorRow previousRawData syncTime (headerRow + 1 + idx) row
           # processRows previousRawData syncTime headerRow (Suc idx) rest)"

subsection \<open>Deriving the working rows\<close>

text \<open>The body of \<open>rawRows.forEach(rawRow => ...)\<close> in \<open>updateWorkingAlerts_\<close>: one
  working row per raw row, from the raw row and the entry stored under its key. The stored
  and the new row hash are compared as texts (\<open>existing.rowHash !== rowHash\<close>); were a
  token of digits only handed back by the sheet as a number, the script would take the
  branch of a changed hash where this definition takes the branch of an unchanged one.\<close>

definition workingRow :: "(string \<rightharpoonup> wa_entry) \<Rightarrow> raw_row \<Rightarrow> wa_row" where
  "workingRow existingWA rawRow =
     (let threadKey = rawThreadKey rawRow;
          rowHash = rawRowHash rawRow;
          sourceRow = rawSourceRow rawRow
      in case existingWA (compositeKey threadKey sourceRow) of
           Some existing \<Rightarrow>
             (let hashChanged = (exRowHash existing \<noteq> rowHash);
                  group = (if hashChanged
                           then (if exReadyToResolve existing then ''Resolved'' else ''Updated'')
                           else exGroup existing);
                  lrUpdatedAfterRes = (hashChanged \<and> exReadyToResolve existing)
              in \<lparr> waLr = rawLr rawRow, waGroup = group,
                   waTemplate = exTemplate existing, waFreeText = exFreeText existing,
                   waComposed = Literal (exComposed existing),
                   waPushReady = exPushReady existing,
                   waLastPushedAt = exLastPushedAt existing,
                   waLastPushedText = exLastPushedText existing,
                   waReadyToResolve = exReadyToResolve existing,
                   waLrUpdatedAfterRes = (exLrUpdatedAfterRes existing \<or> lrUpdatedAfterRes),
                   waNotes = exNotes existing,
                   waThreadKey = threadKey, waRowHash = rowHash, waSourceRow = sourceRow \<rparr>)
         | None \<Rightarrow>
             \<lparr> waLr = rawLr rawRow, waGroup = ''New'',
               waTemplate = [], waFreeText = [], waComposed = Literal [],
               waPushReady = False, waLastPushedAt = [], waLastPushedText = [],
               waReadyToResolve = False, waLrUpdatedAfterRes = False, waNotes = [],
               waThreadKey = threadKey, waRowHash = rowHash, waSourceRow = sourceRow \<rparr>)"

text \<open>
  The comparator of \<open>waRows.sort\<close>. Thread keys are base-36 tokens, on which
  \<open>localeCompare\<close> is the lexicographic order of the code units. \<open>new Date(a[0])\<close> is
  the platform's date parser, taken as the parameter \<open>dateValue\<close> (\<open>None\<close> for an
  invalid date); a difference that is \<open>NaN\<close> counts as 0 in \<open>Array.prototype.sort\<close>.
  The sort is stable, so for a consistent comparator it is the stable insertion sort.
\<close>

fun localeCompare :: "string \<Rightarrow> string \<Rightarrow> int" where
  "localeCompare [] [] = 0"
| "localeCompare [] (y # ys) = -1"
| "localeCompare (x # xs) [] = 1"
| "localeCompare (x # xs) (y # ys) =
     (if (of_char x :: nat) < of_char y then -1
      else if (of_char y :: nat) < of_char x then 1
      else localeCompare xs ys)"

definition compareRows :: "(string \<Rightarrow> int option) \<Rightarrow> wa_row \<Rightarrow> wa_row \<Rightarrow> int" where
  "compareRows dateValue a b =
     (if waThreadKey a \<noteq> waThreadKey b then localeCompare (waThreadKey a) (waThreadKey b)
      else if lrDate (waLr a) \<noteq> lrDate (waLr b) then
        (case (dateValue (lrDate (waLr a)), dateValue (lrDate (waLr b))) of
           (Some dateA, Some dateB) \<Rightarrow> dateA - dateB
         | _ \<Rightarrow> 0)
      else int (waSourceRow a) - int (waSourceRow b))"

fun insertRow :: "('a \<Rightarrow> 'a \<Rightarrow> int) \<Rightarrow> 'a \<Rightarrow> 'a list \<Rightarrow> 'a list" where
  "insertRow cmp x [] = [x]"
| "insertRow cmp x (y # ys) = (if cmp x y \<le> 0 then x # y # ys else y # insertRow cmp x ys)"

definition sortRows :: "('a \<Rightarrow> 'a \<Rightarrow> int) \<Rightarrow> 'a list \<Rightarrow> 'a list" where
  "sortRows cmp xs = foldr (insertRow cmp) xs []"

text \<open>The loop that rewrites column K after the rows are written: the composed text when
  there is one, the formula otherwise.\<close>

definition autoCompose :: "wa_row \<Rightarrow> wa_row" where
  "autoCompose w =
     (let template = waTemplate w;
          freeText = waFreeText w;
          autoComposed = (if template \<noteq> [] \<and> freeText \<noteq> [] then template @ '', '' @ freeText
                          else if template \<noteq> [] then template
                          else if freeText \<noteq> [] then freeText
                          else [])
      in if autoComposed \<noteq> [] then w\<lparr>waComposed := Literal autoComposed\<rparr>
         else w\<lparr>waComposed := Formula\<rparr>)"

datatype sync_error =
    AnotherSyncRunning
  | ConfigTabNotFound
  | UrlNotConfigured
  | InvalidUrlFormat
  | CannotAccessSheet
  | LrTabNotFound
  | RawAlertsTabNotFound
  | WorkingAlertsTabNotFound

text \<open>\<open>updateWorkingAlerts_\<close>: the new content of Working_Alerts, or the error thrown when
  the tab is missing. Cell colours and data validation are not modelled.\<close>

definition updateWorkingAlerts ::
  "(string \<Rightarrow> int option) \<Rightarrow> wa_row list option \<Rightarrow> raw_row list \<Rightarrow> sync_error + wa_row list" where
  "updateWorkingAlerts dateValue waTab rawRows =
     (case waTab of
        None \<Rightarrow> Inl WorkingAlertsTabNotFound
      | Some data \<Rightarrow>
          (let existingWA = loadExistingWorkingAlerts data;
               waRows = sortRows (compareRows dateValue) (map (workingRow existingWA) rawRows)
           in Inr (map autoCompose waRows)))"

subsection \<open>The sync cycle\<close>

text \<open>What the script finds outside its own spreadsheet during one sync: the script lock,
  the Config tab, the LiveRamp spreadsheet and the clock.\<close>

datatype lr_source = Inaccessible | NoSuchTab | Tab "lr_row list"

record sync_env =
  lockAvailable :: bool
  configPresent :: bool
  configUrl :: string
  lrSource :: lr_source
  headerRowNumber :: nat
  syncTime :: string

datatype sync_result = SyncComplete nat | NoData | SyncFailed sync_error

text \<open>
  \<open>syncFromLiveRamp\<close>. \<open>Tab rows\<close> holds the rows below the header row down to the last
  row with content. Raw_Alerts is rewritten before \<open>updateWorkingAlerts_\<close> runs, so a
  missing Working_Alerts tab fails after that write.
\<close>

definition syncFromLiveRamp :: "(string \<Rightarrow> int option) \<Rightarrow> sync_env \<Rightarrow> store \<Rightarrow> store \<times> sync_result" where
  "syncFromLiveRamp dateValue env ss =
     (if \<not> lockAvailable env then (ss, SyncFailed AnotherSyncRunning)
      else if \<not> configPresent env then (ss, SyncFailed ConfigTabNotFound)
      else
        let lrUrl = trim (configUrl env) in
        if lrUrl = [] then (ss, SyncFailed UrlNotConfigured)
        else if \<not> startsWith lrUrl ''https://docs.google.com/spreadsheets/''
          then (ss, SyncFailed InvalidUrlFormat)
        else
          (case lrSource env of
             Inaccessible \<Rightarrow> (ss, SyncFailed CannotAccessSheet)
           | NoSuchTab \<Rightarrow> (ss, SyncFailed LrTabNotFound)
           | Tab lrData \<Rightarrow>
               let headerRow = (if headerRowNumber env = 0 then 1 else headerRowNumber env) in
               if lrData = [] then (ss, NoData)
               else
                 (case rawSheet ss of
                    None \<Rightarrow> (ss, SyncFailed RawAlertsTabNotFound)
                  | Some previousRaw \<Rightarrow>
                      let previousRawData = loadPreviousRawData previousRaw;
                          rawRows = processRows previousRawData (syncTime env) headerRow 0 lrData;
                          ss1 = ss\<lparr>rawSheet := Some rawRows\<rparr>
                      in (case updateWorkingAlerts dateValue (waSheet ss1) rawRows of
                            Inl err \<Rightarrow> (ss1, SyncFailed err)
                          | Inr waRows \<Rightarrow>
                              (ss1\<lparr>waSheet := Some waRows\<rparr>, SyncComplete (length rawRows))))))"

section \<open>Push engine\<close>

text \<open>
  Column F (Horizon Comment) of the LiveRamp tab, by row number, as it is read at push
  time. \<open>accessError\<close> gives the rows where touching the cell throws (a row number
  outside the grid, a protected range) and the message of the exception.
\<close>

record lr_sheet =
  horizonComment :: "nat \<Rightarrow> string"
  accessError :: "nat \<Rightarrow> string option"

record push_tally =
  rowsConsidered :: nat
  rowsPushed :: nat
  rowsSkippedNoChange :: nat
  rowsSkippedNotReady :: nat
  errors :: "string list"

definition newline :: string where
  "newline = [CHR 0x0A]"

text \<open>
  The body of \<open>waData.forEach((row, idx) => ...)\<close> in \<open>pushUpdatesToLiveRamp\<close>. The
  writes to Working_Alerts go to row \<open>3 + idx\<close>, the row being processed, so the step
  returns that row as it stands afterwards. Cell colours are not modelled.
\<close>

definition pushRow ::
  "string \<Rightarrow> string \<Rightarrow> wa_row \<Rightarrow> lr_sheet \<times> push_tally \<Rightarrow> wa_row \<times> lr_sheet \<times> push_tally" where
  "pushRow label pushTime row st =
     (let lrSheet = fst st; t = snd st;
          composed = trim (waComposedValue row);
          pushReady = waPushReady row;
          lastPushedText = trim (waLastPushedText row);
          readyToResolve = waReadyToResolve row;
          sourceRowNum = waSourceRow row
      in if composed = [] then (row, lrSheet, t)
         else
           let t = t\<lparr>rowsConsidered := rowsConsidered t + 1\<rparr>;
               template = trim (waTemplate row);
               isReadyToResolveTemplate = (template = label)
           in if \<not> pushReady \<and> \<not> isReadyToResolveTemplate
              then (row, lrSheet, t\<lparr>rowsSkippedNotReady := rowsSkippedNotReady t + 1\<rparr>)
              else
                let normalizedComposed = removeWhiteSpace (toLowerCase composed);
                    normalizedLast = removeWhiteSpace (toLowerCase lastPushedText)
                in if normalizedComposed = normalizedLast
                   then (row, lrSheet, t\<lparr>rowsSkippedNoChange := rowsSkippedNoChange t + 1\<rparr>)
                   else
                     (case accessError lrSheet sourceRowNum of
                        Some message \<Rightarrow>
                          (row, lrSheet,
                           t\<lparr>errors := errors t @ [''Row '' @ numToString sourceRowNum @ '': '' @ message]\<rparr>)
                      | None \<Rightarrow>
                          let existingText = trim (horizonComment lrSheet sourceRowNum);
                              newText = existingText
                                        @ (if existingText \<noteq> [] then newline @ newline else [])
                                        @ pushTime @ newline
                                        @ ''Horizon: '' @ composed;
                              lrSheet' = lrSheet\<lparr>horizonComment :=
                                           (horizonComment lrSheet)(sourceRowNum := newText)\<rparr>;
                              row1 = row\<lparr>waLastPushedAt := pushTime, waLastPushedText := composed\<rparr>;
                              row2 = (if readyToResolve \<or> isReadyToResolveTemplate
                                      then row1\<lparr>waGroup := ''Resolved''\<rparr> else row1)
                          in (row2, lrSheet', t\<lparr>rowsPushed := rowsPushed t + 1\<rparr>)))"

fun pushRows ::
  "string \<Rightarrow> string \<Rightarrow> wa_row list \<Rightarrow> lr_sheet \<times> push_tally \<Rightarrow> wa_row list \<times> lr_sheet \<times> push_tally" where
  "pushRows label pushTime [] st = ([], st)"
| "pushRows label pushTime (row # rest) st =
     (case pushRow label pushTime row st of
        (row', st') \<Rightarrow>
          (case pushRows label pushTime rest st' of
             (rest', st'') \<Rightarrow> (row' # rest', st'')))"

record push_env =
  pushLockAvailable :: bool
  pushConfigPresent :: bool
  enableWriteback :: string
  readyToBeResolvedLabel :: string
  pushTimeFormatted :: string
  pushLogTime :: string
  pushRunId :: string

text \<open>\<open>logPush_\<close>: one row appended to Push_Log when that tab exists.\<close>

definition logPush :: "store \<Rightarrow> string \<Rightarrow> string \<Rightarrow> push_tally \<Rightarrow> store" where
  "logPush ss timestamp runId t =
     (case pushLog ss of
        None \<Rightarrow> ss
      | Some rows \<Rightarrow>
          (let errorStr = (if length (errors t) > 0 then join ''; '' (errors t) else []);
               notes = ''Considered: '' @ numToString (rowsConsidered t)
                       @ '', Pushed: '' @ numToString (rowsPushed t);
               row = \<lparr> logTimestamp = timestamp, logMode = ''Manual/Scheduled'',
                       logConsidered = rowsConsidered t, logPushed = rowsPushed t,
                       logSkippedNoChange = rowsSkippedNoChange t,
                       logSkippedNotReady = rowsSkippedNotReady t,
                       logErrorStr = errorStr, logNotes = notes, logRunId = runId \<rparr>
           in ss\<lparr>pushLog := Some (rows @ [row])\<rparr>))"

datatype lr_target = LrInaccessible | LrNoSuchTab | LrTab lr_sheet

datatype push_error =
    AnotherPushRunning
  | PushConfigTabNotFound
  | PushCannotOpenSheet
  | PushLrTabNotFound

datatype push_result =
    WritebackDisabled
  | NoDataToPush
  | PushComplete push_tally
  | PushFailed push_error

definition emptyTally :: push_tally where
  "emptyTally = \<lparr> rowsConsidered = 0, rowsPushed = 0, rowsSkippedNoChange = 0,
                  rowsSkippedNotReady = 0, errors = [] \<rparr>"

text \<open>\<open>Utilities.formatDate(now, tz, "MM/dd/yyyy h:mm a") + " ET"\<close>, the formatted date
  being given by the environment.\<close>

definition pushTimeOf :: "push_env \<Rightarrow> string" where
  "pushTimeOf env = pushTimeFormatted env @ '' ET''"

text \<open>\<open>config.Ready_To_Be_Resolved_Label || "READY TO BE RESOLVED"\<close>\<close>

definition resolveLabel :: "push_env \<Rightarrow> string" where
  "resolveLabel env =
     (if readyToBeResolvedLabel env \<noteq> [] then readyToBeResolvedLabel env
      else ''READY TO BE RESOLVED'')"

text \<open>\<open>pushUpdatesToLiveRamp\<close>: the tracker's tabs and the LiveRamp tab after the cycle, and
  how the cycle ended.\<close>

definition pushUpdatesToLiveRamp ::
  "push_env \<Rightarrow> store \<Rightarrow> lr_target \<Rightarrow> store \<times> lr_target \<times> push_result" where
  "pushUpdatesToLiveRamp env ss lr =
     (if \<not> pushLockAvailable env then (ss, lr, PushFailed AnotherPushRunning)
      else if \<not> pushConfigPresent env then (ss, lr, PushFailed PushConfigTabNotFound)
      else if enableWriteback env \<noteq> ''TRUE'' then (ss, lr, WritebackDisabled)
      else
        (case waSheet ss of
           None \<Rightarrow> (ss, lr, NoDataToPush)
         | Some waData \<Rightarrow>
             if waData = [] then (ss, lr, NoDataToPush)
             else
               (case lr of
                  LrInaccessible \<Rightarrow> (ss, lr, PushFailed PushCannotOpenSheet)
                | LrNoSuchTab \<Rightarrow> (ss, lr, PushFailed PushLrTabNotFound)
                | LrTab lrSheet \<Rightarrow>
                    let pushTime = pushTimeOf env;
                        label = resolveLabel env
                    in (case pushRows label pushTime waData (lrSheet, emptyTally) of
                          (waData', lrSheet', t) \<Rightarrow>
                            (logPush (ss\<lparr>waSheet := Some waData'\<rparr>) (pushLogTime env) (pushRunId env) t,
                             LrTab lrSheet', PushComplete t)))))"

section \<open>Notions used to state the properties\<close>

text \<open>The seven columns of a working row that only a person (or a push) writes.\<close>

definition humanFields :: "wa_row \<Rightarrow> string \<times> string \<times> bool \<times> string \<times> string \<times> bool \<times> string" where
  "humanFields w =
     (waTemplate w, waFreeText w, waPushReady w, waLastPushedAt w, waLastPushedText w,
      waReadyToResolve w, waNotes w)"

text \<open>The counters of a push cycle add up.\<close>

definition balanced :: "push_tally \<Rightarrow> bool" where
  "balanced t =
     (rowsConsidered t
      = rowsPushed t + rowsSkippedNoChange t + rowsSkippedNotReady t + length (errors t))"

text \<open>Any number of syncs in a row, each over its own batch of raw rows, and the state
  "the record with this key is there and carries the updated-after-resolution flag".\<close>

fun syncRepeatedly :: "(string \<Rightarrow> int option) \<Rightarrow> wa_row list \<Rightarrow> raw_row list list \<Rightarrow> wa_row list" where
  "syncRepeatedly dateValue wa [] = wa"
| "syncRepeatedly dateValue wa (rawRows # later) =
     (case updateWorkingAlerts dateValue (Some wa) rawRows of
        Inl err \<Rightarrow> wa
      | Inr wa' \<Rightarrow> syncRepeatedly dateValue wa' later)"

definition flagged :: "string \<Rightarrow> wa_row list \<Rightarrow> bool" where
  "flagged k wa =
     ((\<exists>w \<in> set wa. compositeKey (waThreadKey w) (waSourceRow w) = k) \<and>
      (\<forall>w \<in> set wa. compositeKey (waThreadKey w) (waSourceRow w) = k
                     \<longrightarrow> waLrUpdatedAfterRes w))"

section \<open>A worked example\<close>

text \<open>
  One alert as LiveRamp reports it, a first sync into empty tabs, a person who selects a
  template and ticks HMI_Push_Ready, a push, and the next sync. The concrete rows below
  are also the inputs at which the general theorems are instantiated.
\<close>

definition exampleRow :: lr_row where
  "exampleRow = \<lparr> lrDate = ''2026-02-01'', lrProduct = ''Pixel'', lrWorkflow = ''W1'',
                   lrIssue = ''Cannot decommission'', lrRequest = ''Please advise'',
                   lrComment = [], lrResolved = False \<rparr>"

definition exampleSyncEnv :: "lr_row list \<Rightarrow> sync_env" where
  "exampleSyncEnv rows = \<lparr> lockAvailable = True, configPresent = True,
       configUrl = ''https://docs.google.com/spreadsheets/d/1'', lrSource = Tab rows,
       headerRowNumber = 1, syncTime = ''02/10/2026 06:00:00'' \<rparr>"

definition emptyStore :: store where
  "emptyStore = \<lparr> rawSheet = Some [], waSheet = Some [], pushLog = Some [] \<rparr>"

definition examplePushEnv :: push_env where
  "examplePushEnv = \<lparr> pushLockAvailable = True, pushConfigPresent = True,
       enableWriteback = ''TRUE'', readyToBeResolvedLabel = [],
       pushTimeFormatted = ''02/10/2026 9:15 AM'', pushLogTime = ''02/10/2026 09:15:00'',
       pushRunId = ''1a2b3c4d'' \<rparr>"

definition blankLrSheet :: lr_sheet where
  "blankLrSheet = \<lparr> horizonComment = (\<lambda>n. []), accessError = (\<lambda>n. None) \<rparr>"

text \<open>A person fills in the template and ticks HMI_Push_Ready on every working row.\<close>

definition humanResponds :: "string \<Rightarrow> store \<Rightarrow> store" where
  "humanResponds template ss =
     ss\<lparr>waSheet := map_option (map (\<lambda>w. w\<lparr>waTemplate := template, waPushReady := True\<rparr>))
                              (waSheet ss)\<rparr>"

text \<open>A date parser that recognises no date: every \<open>new Date(x)\<close> is invalid. With one
  row per tab the comparator of the sort is never called.\<close>

definition noDateValue :: "string \<Rightarrow> int option" where
  "noDateValue d = None"

definition afterFirstSync :: store where
  "afterFirstSync = fst (syncFromLiveRamp noDateValue (exampleSyncEnv [exampleRow]) emptyStore)"

definition afterPush :: "store \<times> lr_target \<times> push_result" where
  "afterPush = pushUpdatesToLiveRamp examplePushEnv
                 (humanResponds ''Investigating internally'' afterFirstSync) (LrTab blankLrSheet)"

definition afterSecondSync :: "lr_row list \<Rightarrow> store" where
  "afterSecondSync rows = fst (syncFromLiveRamp noDateValue (exampleSyncEnv rows) (fst afterPush))"

text \<open>The working row after the first sync, after the person's edit and after the push.\<close>

definition firstWorkingRow :: wa_row where
  "firstWorkingRow = \<lparr> waLr = exampleRow, waGroup = ''New'', waTemplate = [], waFreeText = [],
       waComposed = Formula, waPushReady = False, waLastPushedAt = [], waLastPushedText = [],
       waReadyToResolve = False, waLrUpdatedAfterRes = False, waNotes = [],
       waThreadKey = ''f3sra7'', waRowHash = ''ixwmhm'', waSourceRow = 2 \<rparr>"

definition respondedRow :: wa_row where
  "respondedRow = firstWorkingRow\<lparr>waTemplate := ''Investigating internally'', waPushReady := True\<rparr>"

definition pushedWorkingRow :: wa_row where
  "pushedWorkingRow = firstWorkingRow\<lparr> waTemplate := ''Investigating internally'',
       waPushReady := True, waLastPushedAt := ''02/10/2026 9:15 AM ET'',
       waLastPushedText := ''Investigating internally'' \<rparr>"

definition pushedComment :: string where
  "pushedComment = ''02/10/2026 9:15 AM ET'' @ newline @ ''Horizon: Investigating internally''"

text \<open>The alert as the next fetch returns it once column F holds the pushed comment.\<close>

definition commentedRow :: lr_row where
  "commentedRow = exampleRow\<lparr>lrComment := pushedComment\<rparr>"


text \<open>A working row that a person annotated further, and the same row marked ready to be
  resolved; the raw row of the next sync, in which LiveRamp's row has changed.\<close>

definition annotatedRow :: wa_row where
  "annotatedRow = pushedWorkingRow\<lparr> waFreeText := ''ETA 2 weeks'', waComposed := Literal ''stale text'',
       waNotes := ''Vendor said 2 weeks ETA'' \<rparr>"

definition resolvedRow :: wa_row where
  "resolvedRow = annotatedRow\<lparr> waReadyToResolve := True, waGroup := ''Resolved'' \<rparr>"

definition changedRaw :: raw_row where
  "changedRaw = mirrorRow Map.empty ''02/11/2026 06:00:00'' 2 commentedRow"

definition reconciledRow :: wa_row where
  "reconciledRow = annotatedRow\<lparr> waLr := commentedRow, waGroup := ''Updated'',
       waComposed := Literal ''Investigating internally, ETA 2 weeks'', waRowHash := ''804a4q'' \<rparr>"

text \<open>Two sparse rows of the LiveRamp tab.\<close>

definition issueOnlyRow :: lr_row where
  "issueOnlyRow = \<lparr> lrDate = [], lrProduct = [], lrWorkflow = [],
                     lrIssue = ''Cannot decommission'', lrRequest = ''Please advise'',
                     lrComment = [], lrResolved = False \<rparr>"

definition dateOnlyRow :: lr_row where
  "dateOnlyRow = \<lparr> lrDate = ''2026-02-01'', lrProduct = [], lrWorkflow = [],
                    lrIssue = [], lrRequest = [], lrComment = [], lrResolved = False \<rparr>"




text \<open>A LiveRamp comment cell that ends in a space, and a Working_Alerts tab whose rows
  take every path of the push loop, pushed against a sheet whose row 6 is protected.\<close>

definition spacedLrSheet :: lr_sheet where
  "spacedLrSheet = \<lparr> horizonComment = (\<lambda>n. ''A ''), accessError = (\<lambda>n. None) \<rparr>"

definition unreadyRow :: wa_row where
  "unreadyRow = firstWorkingRow\<lparr>waTemplate := ''Investigating internally'', waSourceRow := 3\<rparr>"

definition readyRow :: wa_row where
  "readyRow = respondedRow\<lparr>waSourceRow := 4\<rparr>"

definition repeatedRow :: wa_row where
  "repeatedRow = pushedWorkingRow\<lparr>waSourceRow := 5\<rparr>"

definition blockedRow :: wa_row where
  "blockedRow = respondedRow\<lparr>waSourceRow := 6\<rparr>"

definition protectedLrSheet :: lr_sheet where
  "protectedLrSheet = \<lparr> horizonComment = (\<lambda>n. []),
                         accessError = (\<lambda>n. if n = 6 then Some ''protected cell'' else None) \<rparr>"

definition mixedStore :: store where
  "mixedStore = \<lparr> rawSheet = Some [],
                   waSheet = Some [firstWorkingRow, unreadyRow, readyRow, repeatedRow, blockedRow],
                   pushLog = Some [] \<rparr>"


section \<open>Basic facts\<close>

subsection \<open>Strings\<close>

lemma toStringRadix_nonempty: "toStringRadix b n \<noteq> []"
  by (subst toStringRadix.simps) simp

lemma isWhiteSpace_lowerChar: "isWhiteSpace (lowerChar c) = isWhiteSpace c"
  by (auto simp: isWhiteSpace_def lowerChar_def Let_def)

lemma filter_dropWhile_neg: "filter (\<lambda>c. \<not> P c) (dropWhile P s) = filter (\<lambda>c. \<not> P c) s"
  by (induction s) auto

lemma removeWhiteSpace_trim: "removeWhiteSpace (trim s) = removeWhiteSpace s"
  by (simp add: removeWhiteSpace_def trim_def rev_filter [symmetric] filter_dropWhile_neg)

lemma removeWhiteSpace_toLowerCase:
  "removeWhiteSpace (toLowerCase s) = toLowerCase (removeWhiteSpace s)"
  by (induction s) (simp_all add: removeWhiteSpace_def toLowerCase_def isWhiteSpace_lowerChar)

lemma normalized_trim:
  "removeWhiteSpace (toLowerCase (trim s)) = removeWhiteSpace (toLowerCase s)"
  by (simp add: removeWhiteSpace_toLowerCase removeWhiteSpace_trim)

lemma trim_nil: "trim [] = []"
  by (simp add: trim_def)

lemma norm_nil: "removeWhiteSpace (toLowerCase []) = []"
  by (simp add: removeWhiteSpace_def toLowerCase_def)

subsection \<open>The sort keeps the rows\<close>

lemma set_insertRow: "set (insertRow cmp x xs) = insert x (set xs)"
  by (induction xs) auto

lemma set_sortRows: "set (sortRows cmp xs) = set xs"
  by (induction xs) (simp_all add: sortRows_def set_insertRow)



subsection \<open>Lookups: the last row with a key is the one found\<close>

lemma foldl_upd_other:
  "\<forall>q \<in> set ys. k q \<noteq> key \<Longrightarrow> foldl (\<lambda>m r. m(k r \<mapsto> v r)) m ys key = m key"
  by (induction ys arbitrary: m) auto

lemma foldl_upd_last:
  "\<forall>q \<in> set ys. k q \<noteq> k p \<Longrightarrow> foldl (\<lambda>m r. m(k r \<mapsto> v r)) m (xs @ p # ys) (k p) = Some (v p)"
  by (simp add: foldl_upd_other)

lemma loadExisting_last:
  assumes "\<forall>q \<in> set after. compositeKey (waThreadKey q) (waSourceRow q) \<noteq> compositeKey (waThreadKey prev) (waSourceRow prev)"
  shows "loadExistingWorkingAlerts (before @ prev # after) (compositeKey (waThreadKey prev) (waSourceRow prev)) = Some (waEntry prev)"
  unfolding loadExistingWorkingAlerts_def
  using foldl_upd_last [where k = "\<lambda>r. compositeKey (waThreadKey r) (waSourceRow r)" and v = waEntry, OF assms] .


subsection \<open>Working rows\<close>

lemma autoCompose_fields [simp]:
  "waLr (autoCompose w) = waLr w" "waGroup (autoCompose w) = waGroup w"
  "waTemplate (autoCompose w) = waTemplate w" "waFreeText (autoCompose w) = waFreeText w"
  "waPushReady (autoCompose w) = waPushReady w" "waLastPushedAt (autoCompose w) = waLastPushedAt w"
  "waLastPushedText (autoCompose w) = waLastPushedText w" "waReadyToResolve (autoCompose w) = waReadyToResolve w"
  "waLrUpdatedAfterRes (autoCompose w) = waLrUpdatedAfterRes w" "waNotes (autoCompose w) = waNotes w"
  "waThreadKey (autoCompose w) = waThreadKey w" "waRowHash (autoCompose w) = waRowHash w"
  "waSourceRow (autoCompose w) = waSourceRow w"
  by (simp_all add: autoCompose_def Let_def)

lemma workingRow_keys [simp]:
  "waLr (workingRow ex r) = rawLr r" "waThreadKey (workingRow ex r) = rawThreadKey r"
  "waRowHash (workingRow ex r) = rawRowHash r" "waSourceRow (workingRow ex r) = rawSourceRow r"
  by (simp_all add: workingRow_def Let_def split: option.splits)

lemma workingRow_existing:
  assumes "ex (compositeKey (rawThreadKey r) (rawSourceRow r)) = Some (waEntry prev)"
  shows "humanFields (workingRow ex r) = humanFields prev"
  using assms by (simp add: workingRow_def Let_def humanFields_def waEntry_def)

lemma humanFields_autoCompose [simp]: "humanFields (autoCompose w) = humanFields w"
  by (simp add: humanFields_def)

lemma set_updateWorkingAlerts:
  "updateWorkingAlerts dv (Some data) rawRows = Inr out \<Longrightarrow>
   set out = (\<lambda>r. autoCompose (workingRow (loadExistingWorkingAlerts data) r)) ` set rawRows"
  by (auto simp: updateWorkingAlerts_def Let_def set_sortRows)

lemma waComposedValue_autoCompose:
  "waComposedValue (autoCompose w) =
     (if waTemplate w \<noteq> [] \<and> waFreeText w \<noteq> [] then waTemplate w @ '', '' @ waFreeText w
      else if waTemplate w \<noteq> [] then waTemplate w
      else if waFreeText w \<noteq> [] then waFreeText w
      else [])"
  by (simp add: autoCompose_def waComposedValue_def formulaValue_def Let_def)

lemma waComposedValue_cong:
  "waComposed a = waComposed b \<Longrightarrow> waTemplate a = waTemplate b \<Longrightarrow> waFreeText a = waFreeText b \<Longrightarrow>
   waComposedValue a = waComposedValue b"
  by (simp add: waComposedValue_def split: composed_cell.splits)

lemma workingRow_changed_resolved:
  assumes "ex (compositeKey (rawThreadKey r) (rawSourceRow r)) = Some (waEntry prev)"
    and "waRowHash prev \<noteq> rawRowHash r" and "waReadyToResolve prev"
  shows "waGroup (workingRow ex r) = ''Resolved'' \<and> waLrUpdatedAfterRes (workingRow ex r)"
  using assms by (simp add: workingRow_def Let_def waEntry_def)

lemma workingRow_flag_kept:
  assumes "ex (compositeKey (rawThreadKey r) (rawSourceRow r)) = Some (waEntry prev)"
    and "waLrUpdatedAfterRes prev"
  shows "waLrUpdatedAfterRes (workingRow ex r)"
  using assms by (simp add: workingRow_def Let_def waEntry_def)

lemma sourceRows_processRows:
  "rawSourceRow ` set (processRows prev t h idx rows)
   = {h + 1 + idx + i | i. i < length rows \<and> \<not> skipRow (rows ! i)}"
proof (induction rows arbitrary: idx)
  case Nil
  then show ?case by simp
next
  case (Cons row rest)
  have split: "\<And>P. {i. i < Suc (length rest) \<and> P i} = (if P 0 then {0} else {}) \<union> Suc ` {i. i < length rest \<and> P (Suc i)}"
    by (auto simp: image_iff less_Suc_eq_0_disj)
  have "{h + 1 + idx + i | i. i < length (row # rest) \<and> \<not> skipRow ((row # rest) ! i)}
        = (\<lambda>i. h + 1 + idx + i) ` {i. i < Suc (length rest) \<and> \<not> skipRow ((row # rest) ! i)}"
    by auto
  also have "\<dots> = (if \<not> skipRow row then {h + 1 + idx} else {})
                   \<union> (\<lambda>i. h + 1 + Suc idx + i) ` {i. i < length rest \<and> \<not> skipRow (rest ! i)}"
    by (subst split) (auto simp: image_Un image_image)
  also have "(\<lambda>i. h + 1 + Suc idx + i) ` {i. i < length rest \<and> \<not> skipRow (rest ! i)}
             = rawSourceRow ` set (processRows prev t h (Suc idx) rest)"
    unfolding Cons.IH by auto
  finally show ?case
    by (auto simp: mirrorRow_def Let_def)
qed

lemma sourceRows_updateWorkingAlerts:
  "updateWorkingAlerts dv (Some data) rawRows = Inr out \<Longrightarrow>
   waSourceRow ` set out = rawSourceRow ` set rawRows"
  by (drule set_updateWorkingAlerts) (simp add: image_image)

lemma syncFromLiveRamp_complete:
  assumes "lockAvailable env" and "configPresent env"
    and "trim (configUrl env) \<noteq> []"
    and "startsWith (trim (configUrl env)) ''https://docs.google.com/spreadsheets/''"
    and "lrSource env = Tab lrData" and "lrData \<noteq> []"
    and "rawSheet ss = Some previousRaw" and "waSheet ss = Some previousWa"
  shows "\<exists>rawRows waRows.
           rawRows = processRows (loadPreviousRawData previousRaw) (syncTime env)
                       (if headerRowNumber env = 0 then 1 else headerRowNumber env) 0 lrData \<and>
           updateWorkingAlerts dateValue (Some previousWa) rawRows = Inr waRows \<and>
           syncFromLiveRamp dateValue env ss
             = (ss\<lparr>rawSheet := Some rawRows, waSheet := Some waRows\<rparr>, SyncComplete (length rawRows))"
proof -
  let ?raw = "processRows (loadPreviousRawData previousRaw) (syncTime env)
                       (if headerRowNumber env = 0 then 1 else headerRowNumber env) 0 lrData"
  obtain waRows where wa: "updateWorkingAlerts dateValue (Some previousWa) ?raw = Inr waRows"
    by (simp add: updateWorkingAlerts_def Let_def)
  have "syncFromLiveRamp dateValue env ss
             = (ss\<lparr>rawSheet := Some ?raw, waSheet := Some waRows\<rparr>, SyncComplete (length ?raw))"
    using assms wa by (simp add: syncFromLiveRamp_def Let_def)
  with wa show ?thesis by blast
qed






subsection \<open>The paths of one push step\<close>

lemma pushRow_empty:
  "trim (waComposedValue row) = [] \<Longrightarrow> pushRow label pushTime row (lrSheet, t) = (row, lrSheet, t)"
  by (simp add: pushRow_def)

lemma pushRow_not_ready:
  "trim (waComposedValue row) \<noteq> [] \<Longrightarrow> \<not> waPushReady row \<Longrightarrow> trim (waTemplate row) \<noteq> label \<Longrightarrow>
   pushRow label pushTime row (lrSheet, t)
     = (row, lrSheet, t\<lparr>rowsConsidered := rowsConsidered t + 1,
                         rowsSkippedNotReady := rowsSkippedNotReady t + 1\<rparr>)"
  by (simp add: pushRow_def Let_def)

lemma pushRow_no_change:
  "trim (waComposedValue row) \<noteq> [] \<Longrightarrow> waPushReady row \<or> trim (waTemplate row) = label \<Longrightarrow>
   removeWhiteSpace (toLowerCase (waComposedValue row))
     = removeWhiteSpace (toLowerCase (waLastPushedText row)) \<Longrightarrow>
   pushRow label pushTime row (lrSheet, t)
     = (row, lrSheet, t\<lparr>rowsConsidered := rowsConsidered t + 1,
                         rowsSkippedNoChange := rowsSkippedNoChange t + 1\<rparr>)"
  by (cases "waPushReady row") (simp_all add: pushRow_def Let_def normalized_trim)

lemma pushRow_error:
  "trim (waComposedValue row) \<noteq> [] \<Longrightarrow> waPushReady row \<or> trim (waTemplate row) = label \<Longrightarrow>
   removeWhiteSpace (toLowerCase (waComposedValue row))
     \<noteq> removeWhiteSpace (toLowerCase (waLastPushedText row)) \<Longrightarrow>
   accessError lrSheet (waSourceRow row) = Some message \<Longrightarrow>
   pushRow label pushTime row (lrSheet, t)
     = (row, lrSheet,
        t\<lparr>rowsConsidered := rowsConsidered t + 1,
          errors := errors t @ [''Row '' @ numToString (waSourceRow row) @ '': '' @ message]\<rparr>)"
  by (cases "waPushReady row") (simp_all add: pushRow_def Let_def normalized_trim)

lemma pushRow_pushed:
  "trim (waComposedValue row) \<noteq> [] \<Longrightarrow> waPushReady row \<or> trim (waTemplate row) = label \<Longrightarrow>
   removeWhiteSpace (toLowerCase (waComposedValue row))
     \<noteq> removeWhiteSpace (toLowerCase (waLastPushedText row)) \<Longrightarrow>
   accessError lrSheet (waSourceRow row) = None \<Longrightarrow>
   pushRow label pushTime row (lrSheet, t)
     = ((if waReadyToResolve row \<or> trim (waTemplate row) = label
         then row\<lparr>waLastPushedAt := pushTime, waLastPushedText := trim (waComposedValue row),
                  waGroup := ''Resolved''\<rparr>
         else row\<lparr>waLastPushedAt := pushTime, waLastPushedText := trim (waComposedValue row)\<rparr>),
        lrSheet\<lparr>horizonComment := (horizonComment lrSheet)
           (waSourceRow row :=
              trim (horizonComment lrSheet (waSourceRow row))
              @ (if trim (horizonComment lrSheet (waSourceRow row)) \<noteq> [] then newline @ newline else [])
              @ pushTime @ newline @ ''Horizon: '' @ trim (waComposedValue row))\<rparr>,
        t\<lparr>rowsConsidered := rowsConsidered t + 1, rowsPushed := rowsPushed t + 1\<rparr>)"
  by (cases "waPushReady row") (simp_all add: pushRow_def Let_def normalized_trim)

lemma pushRow_balanced:
  "balanced (snd st) \<Longrightarrow> balanced (snd (snd (pushRow label pt row st)))"
  by (simp add: pushRow_def Let_def balanced_def split: option.splits)

lemma pushRow_considered:
  "rowsConsidered (snd (snd (pushRow label pt row st)))
   = rowsConsidered (snd st) + (if trim (waComposedValue row) \<noteq> [] then 1 else 0)"
  by (simp add: pushRow_def Let_def split: option.splits)

lemma pushRows_balanced:
  "balanced (snd st) \<Longrightarrow> balanced (snd (snd (pushRows label pt rows st)))"
proof (induction rows arbitrary: st)
  case Nil
  then show ?case by simp
next
  case (Cons row rest)
  obtain row' st' where r: "pushRow label pt row st = (row', st')" by (cases "pushRow label pt row st")
  obtain rest' st'' where rs: "pushRows label pt rest st' = (rest', st'')" by (cases "pushRows label pt rest st'")
  have "balanced (snd st')" using pushRow_balanced [OF Cons.prems, of label pt row] r by simp
  from Cons.IH [OF this] rs r show ?case by simp
qed

lemma pushRows_considered:
  "rowsConsidered (snd (snd (pushRows label pt rows st)))
   = rowsConsidered (snd st) + length (filter (\<lambda>row. trim (waComposedValue row) \<noteq> []) rows)"
proof (induction rows arbitrary: st)
  case Nil
  then show ?case by simp
next
  case (Cons row rest)
  obtain row' st' where r: "pushRow label pt row st = (row', st')" by (cases "pushRow label pt row st")
  obtain rest' st'' where rs: "pushRows label pt rest st' = (rest', st'')" by (cases "pushRows label pt rest st'")
  have "rowsConsidered (snd st') = rowsConsidered (snd st) + (if trim (waComposedValue row) \<noteq> [] then 1 else 0)"
    using pushRow_considered [of label pt row st] r by simp
  with Cons.IH [of st'] rs r show ?case by simp
qed

lemma logPush_counters:
  "pushLog ss = Some rows \<Longrightarrow>
   \<exists>entry. pushLog (logPush ss ts rid t) = Some (rows @ [entry]) \<and>
           logConsidered entry = rowsConsidered t \<and> logPushed entry = rowsPushed t \<and>
           logSkippedNoChange entry = rowsSkippedNoChange t \<and>
           logSkippedNotReady entry = rowsSkippedNotReady t \<and>
           logErrorStr entry = join ''; '' (errors t)"
  by (cases "errors t") (simp_all add: logPush_def Let_def)

lemma pushUpdatesToLiveRamp_complete:
  assumes "pushLockAvailable env" and "pushConfigPresent env"
    and "enableWriteback env = ''TRUE''"
    and "waSheet ss = Some waData" and "waData \<noteq> []"
    and "pushRows (resolveLabel env) (pushTimeOf env) waData (lrSheet, emptyTally)
         = (waData', lrSheet', t)"
  shows "pushUpdatesToLiveRamp env ss (LrTab lrSheet)
         = (logPush (ss\<lparr>waSheet := Some waData'\<rparr>) (pushLogTime env) (pushRunId env) t,
            LrTab lrSheet', PushComplete t)"
  using assms by (simp add: pushUpdatesToLiveRamp_def Let_def)

section \<open>The worked example, evaluated\<close>

lemma url_ok:
  "trim ''https://docs.google.com/spreadsheets/d/1'' = ''https://docs.google.com/spreadsheets/d/1''"
  by (simp add: trim_def isWhiteSpace_def)

lemma exampleSyncEnv_ok:
  "lockAvailable (exampleSyncEnv rows)" "configPresent (exampleSyncEnv rows)"
  "trim (configUrl (exampleSyncEnv rows)) \<noteq> []"
  "startsWith (trim (configUrl (exampleSyncEnv rows))) ''https://docs.google.com/spreadsheets/''"
  "lrSource (exampleSyncEnv rows) = Tab rows"
  "headerRowNumber (exampleSyncEnv rows) = 1" "syncTime (exampleSyncEnv rows) = ''02/10/2026 06:00:00''"
  by (simp_all add: exampleSyncEnv_def url_ok startsWith_def)

lemma examplePushEnv_ok:
  "pushLockAvailable examplePushEnv" "pushConfigPresent examplePushEnv"
  "enableWriteback examplePushEnv = ''TRUE''"
  "resolveLabel examplePushEnv = ''READY TO BE RESOLVED''"
  "pushTimeOf examplePushEnv = ''02/10/2026 9:15 AM ET''"
  by (simp_all add: resolveLabel_def pushTimeOf_def examplePushEnv_def)

lemma exampleRow_key: "computeThreadKey exampleRow = ''f3sra7''"
  by (simp add: computeThreadKey_def exampleRow_def simpleHash_def hashStep_def toStringRadix.simps digitChar_def)

lemma exampleRow_hash: "computeRowHash exampleRow = ''ixwmhm''"
  by (simp add: computeRowHash_def exampleRow_def simpleHash_def hashStep_def toStringRadix.simps digitChar_def boolCell_def)

lemma exampleRow_kept: "\<not> skipRow exampleRow"
  by (simp add: skipRow_def exampleRow_def)

lemma two: "numToString 2 = ''2''"
  by (simp add: numToString_def toStringRadix.simps digitChar_def)

lemma two': "numToString (Suc (Suc 0)) = ''2''"
  using two by (simp add: numeral_2_eq_2)

lemma six: "numToString 6 = ''6''"
  by (simp add: numToString_def toStringRadix.simps digitChar_def)

lemma key_f3sra7_2: "compositeKey ''f3sra7'' 2 = ''f3sra7|2''"
  by (simp add: compositeKey_def two)

lemma afterFirstSync_value:
  "afterFirstSync = \<lparr> rawSheet = Some [\<lparr> rawLr = exampleRow, rawSyncedAt = ''02/10/2026 06:00:00'',
        rawThreadKey = ''f3sra7'', rawRowHash = ''ixwmhm'', rawSourceRow = 2,
        rawFirstSeen = ''02/10/2026 06:00:00'', rawLastSeen = ''02/10/2026 06:00:00'' \<rparr>],
      waSheet = Some [firstWorkingRow], pushLog = Some [] \<rparr>"
  by (simp add: afterFirstSync_def syncFromLiveRamp_def exampleSyncEnv_def emptyStore_def url_ok
      startsWith_def exampleRow_kept mirrorRow_def exampleRow_key exampleRow_hash Let_def
      loadPreviousRawData_def updateWorkingAlerts_def loadExistingWorkingAlerts_def
      sortRows_def workingRow_def autoCompose_def firstWorkingRow_def two compositeKey_def)

lemma trim_template: "trim ''Investigating internally'' = ''Investigating internally''"
  by (simp add: trim_def isWhiteSpace_def)

lemma norm_template:
  "removeWhiteSpace (toLowerCase ''Investigating internally'') = ''investigatinginternally''"
  by (simp add: removeWhiteSpace_def toLowerCase_def lowerChar_def isWhiteSpace_def char_of_def bit_Suc_0_iff)

lemma responded_composed: "waComposedValue respondedRow = ''Investigating internally''"
  by (simp add: respondedRow_def firstWorkingRow_def waComposedValue_def formulaValue_def)

lemma responded_facts:
  "trim (waComposedValue respondedRow) \<noteq> []"
  "waPushReady respondedRow \<or> trim (waTemplate respondedRow) = ''READY TO BE RESOLVED''"
  "removeWhiteSpace (toLowerCase (waComposedValue respondedRow))
     \<noteq> removeWhiteSpace (toLowerCase (waLastPushedText respondedRow))"
  "waSourceRow respondedRow = 2" "waReadyToResolve respondedRow = False"
  "trim (waTemplate respondedRow) \<noteq> ''READY TO BE RESOLVED''"
proof -
  show "trim (waComposedValue respondedRow) \<noteq> []"
    by (simp add: responded_composed trim_template)
  show "waPushReady respondedRow \<or> trim (waTemplate respondedRow) = ''READY TO BE RESOLVED''"
    by (simp add: respondedRow_def)
  have nil: "removeWhiteSpace (toLowerCase []) = []"
    by (simp add: removeWhiteSpace_def toLowerCase_def)
  have lp: "waLastPushedText respondedRow = []"
    by (simp add: respondedRow_def firstWorkingRow_def)
  show "removeWhiteSpace (toLowerCase (waComposedValue respondedRow))
           \<noteq> removeWhiteSpace (toLowerCase (waLastPushedText respondedRow))"
    by (simp add: responded_composed norm_template lp nil)
  show "waSourceRow respondedRow = 2" "waReadyToResolve respondedRow = False"
    "trim (waTemplate respondedRow) \<noteq> ''READY TO BE RESOLVED''"
    by (simp_all add: respondedRow_def firstWorkingRow_def trim_template)
qed

lemma responded_push:
  "pushRow ''READY TO BE RESOLVED'' ''02/10/2026 9:15 AM ET'' respondedRow (blankLrSheet, emptyTally)
   = (pushedWorkingRow,
      blankLrSheet\<lparr>horizonComment := (horizonComment blankLrSheet)(2 := pushedComment)\<rparr>,
      \<lparr>rowsConsidered = 1, rowsPushed = 1, rowsSkippedNoChange = 0,
        rowsSkippedNotReady = 0, errors = []\<rparr>)"
proof -
  have a: "trim (waComposedValue respondedRow) \<noteq> []"
    by (simp add: responded_composed trim_template)
  have b: "waPushReady respondedRow \<or> trim (waTemplate respondedRow) = ''READY TO BE RESOLVED''"
    by (simp add: respondedRow_def)
  have nil: "removeWhiteSpace (toLowerCase []) = []"
    by (simp add: removeWhiteSpace_def toLowerCase_def)
  have lp: "waLastPushedText respondedRow = []"
    by (simp add: respondedRow_def firstWorkingRow_def)
  have c: "removeWhiteSpace (toLowerCase (waComposedValue respondedRow))
           \<noteq> removeWhiteSpace (toLowerCase (waLastPushedText respondedRow))"
    by (simp add: responded_composed norm_template lp nil)
  have d: "accessError blankLrSheet (waSourceRow respondedRow) = None"
    by (simp add: blankLrSheet_def)
  have e: "waSourceRow respondedRow = 2" "waReadyToResolve respondedRow = False"
    "trim (waTemplate respondedRow) \<noteq> ''READY TO BE RESOLVED''"
    by (simp_all add: respondedRow_def firstWorkingRow_def trim_template)
  have f: "trim (horizonComment blankLrSheet 2) = []"
    by (simp add: blankLrSheet_def trim_def)
  show ?thesis
    unfolding pushRow_pushed [OF a b c d] e f responded_composed trim_template
    by (simp add: pushedComment_def emptyTally_def pushedWorkingRow_def respondedRow_def trim_template)
qed

lemma afterPush_value:
  "afterPush = (\<lparr> rawSheet = rawSheet afterFirstSync, waSheet = Some [pushedWorkingRow],
                   pushLog = Some [\<lparr> logTimestamp = ''02/10/2026 09:15:00'', logMode = ''Manual/Scheduled'',
                       logConsidered = 1, logPushed = 1, logSkippedNoChange = 0, logSkippedNotReady = 0,
                       logErrorStr = [], logNotes = ''Considered: 1, Pushed: 1'', logRunId = ''1a2b3c4d'' \<rparr>] \<rparr>,
                LrTab (blankLrSheet\<lparr>horizonComment := (horizonComment blankLrSheet)(2 := pushedComment)\<rparr>),
                PushComplete \<lparr>rowsConsidered = 1, rowsPushed = 1, rowsSkippedNoChange = 0,
                               rowsSkippedNotReady = 0, errors = []\<rparr>)"
proof -
  have h: "humanResponds ''Investigating internally'' afterFirstSync
           = afterFirstSync\<lparr>waSheet := Some [respondedRow]\<rparr>"
    by (simp add: humanResponds_def afterFirstSync_value respondedRow_def)
  have l: "resolveLabel examplePushEnv = ''READY TO BE RESOLVED''"
    "pushTimeOf examplePushEnv = ''02/10/2026 9:15 AM ET''"
    by (simp_all add: resolveLabel_def pushTimeOf_def examplePushEnv_def)
  have one: "numToString (Suc 0) = ''1''"
    by (simp add: numToString_def toStringRadix.simps digitChar_def)
  show ?thesis
    unfolding afterPush_def h pushUpdatesToLiveRamp_def l
    by (simp add: examplePushEnv_def responded_push afterFirstSync_value logPush_def
        one Let_def)
qed

lemma afterSecondSync_unchanged:
  "map_option (map waGroup) (waSheet (afterSecondSync [exampleRow])) = Some [''New'']"
  by (simp add: afterSecondSync_def afterPush_value afterFirstSync_value
      syncFromLiveRamp_def exampleSyncEnv_def url_ok
      startsWith_def exampleRow_kept mirrorRow_def exampleRow_key exampleRow_hash Let_def
      loadPreviousRawData_def updateWorkingAlerts_def loadExistingWorkingAlerts_def
      sortRows_def workingRow_def autoCompose_def firstWorkingRow_def pushedWorkingRow_def
      two two' compositeKey_def waEntry_def)

lemma commented_key: "computeThreadKey commentedRow = ''f3sra7''"
  by (simp add: computeThreadKey_def commentedRow_def exampleRow_def simpleHash_def hashStep_def toStringRadix.simps digitChar_def)

lemma commented_hash: "computeRowHash commentedRow = ''804a4q''"
  by (simp add: computeRowHash_def commentedRow_def exampleRow_def simpleHash_def hashStep_def toStringRadix.simps
      digitChar_def boolCell_def pushedComment_def newline_def)

lemma commented_kept: "\<not> skipRow commentedRow"
  by (simp add: skipRow_def commentedRow_def exampleRow_def)

lemma afterSecondSync_commented:
  "map_option (map waGroup) (waSheet (afterSecondSync [commentedRow]))
   = Some [''Updated'']"
  by (simp add: afterSecondSync_def afterPush_value afterFirstSync_value
      syncFromLiveRamp_def exampleSyncEnv_def url_ok
      startsWith_def commented_kept mirrorRow_def commented_key commented_hash Let_def
      loadPreviousRawData_def updateWorkingAlerts_def loadExistingWorkingAlerts_def
      sortRows_def workingRow_def autoCompose_def firstWorkingRow_def pushedWorkingRow_def
      two two' compositeKey_def waEntry_def)

lemma changedRaw_value:
  "changedRaw = \<lparr> rawLr = commentedRow, rawSyncedAt = ''02/11/2026 06:00:00'',
       rawThreadKey = ''f3sra7'', rawRowHash = ''804a4q'', rawSourceRow = 2,
       rawFirstSeen = ''02/11/2026 06:00:00'', rawLastSeen = ''02/11/2026 06:00:00'' \<rparr>"
  by (simp add: changedRaw_def mirrorRow_def commented_key commented_hash Let_def)

lemma changedRaw_key:
  "compositeKey (rawThreadKey changedRaw) (rawSourceRow changedRaw) = ''f3sra7|2''"
  by (simp add: changedRaw_value key_f3sra7_2)

lemma example_keys:
  "compositeKey (waThreadKey firstWorkingRow) (waSourceRow firstWorkingRow) = ''f3sra7|2''"
  "compositeKey (waThreadKey pushedWorkingRow) (waSourceRow pushedWorkingRow) = ''f3sra7|2''"
  "compositeKey (waThreadKey annotatedRow) (waSourceRow annotatedRow) = ''f3sra7|2''"
  "compositeKey (waThreadKey resolvedRow) (waSourceRow resolvedRow) = ''f3sra7|2''"
  by (simp_all add: resolvedRow_def annotatedRow_def pushedWorkingRow_def firstWorkingRow_def key_f3sra7_2)

lemma annotated_update:
  "updateWorkingAlerts noDateValue (Some [firstWorkingRow, annotatedRow]) [changedRaw]
   = Inr [reconciledRow]"
proof -
  have look: "loadExistingWorkingAlerts [firstWorkingRow, annotatedRow]
                (compositeKey (rawThreadKey changedRaw) (rawSourceRow changedRaw))
              = Some (waEntry annotatedRow)"
    by (simp add: loadExistingWorkingAlerts_def example_keys changedRaw_key)
  have row: "autoCompose (workingRow (loadExistingWorkingAlerts [firstWorkingRow, annotatedRow]) changedRaw)
             = reconciledRow"
    unfolding workingRow_def Let_def look
    by (simp add: waEntry_def annotatedRow_def pushedWorkingRow_def firstWorkingRow_def
        changedRaw_value autoCompose_def reconciledRow_def waComposedValue_def Let_def)
  show ?thesis
    by (simp add: updateWorkingAlerts_def sortRows_def row)
qed

lemma blank_rows_sync:
  "map_option (map rawSourceRow)
     (rawSheet (fst (syncFromLiveRamp noDateValue (exampleSyncEnv [issueOnlyRow, dateOnlyRow]) emptyStore)))
   = Some [3] \<and>
   map_option (map waSourceRow)
     (waSheet (fst (syncFromLiveRamp noDateValue (exampleSyncEnv [issueOnlyRow, dateOnlyRow]) emptyStore)))
   = Some [3]"
proof -
  have skip: "skipRow issueOnlyRow" "\<not> skipRow dateOnlyRow"
    by (simp_all add: skipRow_def issueOnlyRow_def dateOnlyRow_def)
  have st: "rawSheet emptyStore = Some []" "waSheet emptyStore = Some []"
    by (simp_all add: emptyStore_def)
  from syncFromLiveRamp_complete [OF exampleSyncEnv_ok(1-5) _ st, of "[issueOnlyRow, dateOnlyRow]" noDateValue]
  obtain rawRows waRows where
    raw: "rawRows = processRows (loadPreviousRawData []) ''02/10/2026 06:00:00'' 1 0 [issueOnlyRow, dateOnlyRow]"
    and wa: "updateWorkingAlerts noDateValue (Some []) rawRows = Inr waRows"
    and res: "syncFromLiveRamp noDateValue (exampleSyncEnv [issueOnlyRow, dateOnlyRow]) emptyStore
              = (emptyStore\<lparr>rawSheet := Some rawRows, waSheet := Some waRows\<rparr>, SyncComplete (length rawRows))"
    by (auto simp: exampleSyncEnv_ok)
  have r: "map rawSourceRow rawRows = [3]"
    by (simp add: raw skip mirrorRow_def Let_def)
  then obtain x where x: "rawRows = [x]" "rawSourceRow x = 3"
    by (cases rawRows) auto
  from wa have "map waSourceRow waRows = [3]"
    by (auto simp: x updateWorkingAlerts_def sortRows_def Let_def)
  with r show ?thesis by (simp add: res)
qed


lemma spaced_push:
  "pushRow ''READY TO BE RESOLVED'' ''02/10/2026 9:15 AM ET'' respondedRow (spacedLrSheet, emptyTally)
   = (pushedWorkingRow,
      spacedLrSheet\<lparr>horizonComment := (horizonComment spacedLrSheet)
         (2 := ''A'' @ newline @ newline @ pushedComment)\<rparr>,
      \<lparr>rowsConsidered = 1, rowsPushed = 1, rowsSkippedNoChange = 0,
        rowsSkippedNotReady = 0, errors = []\<rparr>)"
proof -
  have d: "accessError spacedLrSheet (waSourceRow respondedRow) = None"
    by (simp add: spacedLrSheet_def)
  have f: "trim (horizonComment spacedLrSheet 2) = ''A''"
    by (simp add: spacedLrSheet_def trim_def isWhiteSpace_def)
  show ?thesis
    unfolding pushRow_pushed [OF responded_facts(1-3) d] responded_facts(4-5) f
      responded_composed trim_template
    by (simp add: pushedComment_def emptyTally_def pushedWorkingRow_def respondedRow_def trim_template)
qed

lemma mixed_composed:
  "waComposedValue firstWorkingRow = []"
  "waComposedValue unreadyRow = ''Investigating internally''"
  "waComposedValue readyRow = ''Investigating internally''"
  "waComposedValue repeatedRow = ''Investigating internally''"
  "waComposedValue blockedRow = ''Investigating internally''"
  by (simp_all add: waComposedValue_def formulaValue_def firstWorkingRow_def unreadyRow_def
      readyRow_def repeatedRow_def blockedRow_def respondedRow_def pushedWorkingRow_def)

lemma mixed_fields:
  "waPushReady unreadyRow = False" "waTemplate unreadyRow = ''Investigating internally''"
  "waPushReady readyRow = True" "waLastPushedText readyRow = []" "waSourceRow readyRow = 4"
  "waReadyToResolve readyRow = False" "waTemplate readyRow = ''Investigating internally''"
  "waPushReady repeatedRow = True" "waLastPushedText repeatedRow = ''Investigating internally''"
  "waPushReady blockedRow = True" "waLastPushedText blockedRow = []" "waSourceRow blockedRow = 6"
  by (simp_all add: firstWorkingRow_def unreadyRow_def
      readyRow_def repeatedRow_def blockedRow_def respondedRow_def pushedWorkingRow_def)

lemma mixed_push:
  "pushRows ''READY TO BE RESOLVED'' ''02/10/2026 9:15 AM ET''
     [firstWorkingRow, unreadyRow, readyRow, repeatedRow, blockedRow] (protectedLrSheet, emptyTally)
   = ([firstWorkingRow, unreadyRow,
       readyRow\<lparr>waLastPushedAt := ''02/10/2026 9:15 AM ET'',
                waLastPushedText := ''Investigating internally''\<rparr>,
       repeatedRow, blockedRow],
      protectedLrSheet\<lparr>horizonComment := (horizonComment protectedLrSheet)(4 := pushedComment)\<rparr>,
      \<lparr>rowsConsidered = 4, rowsPushed = 1, rowsSkippedNoChange = 1, rowsSkippedNotReady = 1,
        errors = [''Row 6: protected cell'']\<rparr>)"
proof -
  have s1: "pushRow ''READY TO BE RESOLVED'' ''02/10/2026 9:15 AM ET'' firstWorkingRow (protectedLrSheet, emptyTally)
            = (firstWorkingRow, protectedLrSheet, emptyTally)"
    by (rule pushRow_empty) (simp add: mixed_composed trim_nil)
  have s2: "pushRow ''READY TO BE RESOLVED'' ''02/10/2026 9:15 AM ET'' unreadyRow (protectedLrSheet, emptyTally)
            = (unreadyRow, protectedLrSheet,
               \<lparr>rowsConsidered = 1, rowsPushed = 0, rowsSkippedNoChange = 0, rowsSkippedNotReady = 1,
                 errors = []\<rparr>)"
    by (subst pushRow_not_ready)
       (simp_all add: mixed_composed mixed_fields trim_template emptyTally_def)
  have s3: "pushRow ''READY TO BE RESOLVED'' ''02/10/2026 9:15 AM ET'' readyRow
              (protectedLrSheet,
               \<lparr>rowsConsidered = 1, rowsPushed = 0, rowsSkippedNoChange = 0, rowsSkippedNotReady = 1,
                 errors = []\<rparr>)
            = (readyRow\<lparr>waLastPushedAt := ''02/10/2026 9:15 AM ET'',
                         waLastPushedText := ''Investigating internally''\<rparr>,
               protectedLrSheet\<lparr>horizonComment := (horizonComment protectedLrSheet)(4 := pushedComment)\<rparr>,
               \<lparr>rowsConsidered = 2, rowsPushed = 1, rowsSkippedNoChange = 0, rowsSkippedNotReady = 1,
                 errors = []\<rparr>)"
    by (subst pushRow_pushed)
       (simp_all add: mixed_composed mixed_fields trim_template norm_template norm_nil
          protectedLrSheet_def trim_nil pushedComment_def)
  have s4: "pushRow ''READY TO BE RESOLVED'' ''02/10/2026 9:15 AM ET'' repeatedRow
              (protectedLrSheet\<lparr>horizonComment := (horizonComment protectedLrSheet)(4 := pushedComment)\<rparr>,
               \<lparr>rowsConsidered = 2, rowsPushed = 1, rowsSkippedNoChange = 0, rowsSkippedNotReady = 1,
                 errors = []\<rparr>)
            = (repeatedRow,
               protectedLrSheet\<lparr>horizonComment := (horizonComment protectedLrSheet)(4 := pushedComment)\<rparr>,
               \<lparr>rowsConsidered = 3, rowsPushed = 1, rowsSkippedNoChange = 1, rowsSkippedNotReady = 1,
                 errors = []\<rparr>)"
    by (subst pushRow_no_change)
       (simp_all add: mixed_composed mixed_fields trim_template)
  have s5: "pushRow ''READY TO BE RESOLVED'' ''02/10/2026 9:15 AM ET'' blockedRow
              (protectedLrSheet\<lparr>horizonComment := (horizonComment protectedLrSheet)(4 := pushedComment)\<rparr>,
               \<lparr>rowsConsidered = 3, rowsPushed = 1, rowsSkippedNoChange = 1, rowsSkippedNotReady = 1,
                 errors = []\<rparr>)
            = (blockedRow,
               protectedLrSheet\<lparr>horizonComment := (horizonComment protectedLrSheet)(4 := pushedComment)\<rparr>,
               \<lparr>rowsConsidered = 4, rowsPushed = 1, rowsSkippedNoChange = 1, rowsSkippedNotReady = 1,
                 errors = [''Row 6: protected cell'']\<rparr>)"
    by (subst pushRow_error [where message = "''protected cell''"])
       (simp_all add: mixed_composed mixed_fields trim_template norm_template norm_nil
          protectedLrSheet_def six)
  show ?thesis
    unfolding pushRows.simps s1 s2 s3 s4 s5 prod.case by (rule refl)
qed

lemma mixed_cycle:
  "snd (snd (pushUpdatesToLiveRamp examplePushEnv mixedStore (LrTab protectedLrSheet)))
   = PushComplete \<lparr>rowsConsidered = 4, rowsPushed = 1, rowsSkippedNoChange = 1,
                     rowsSkippedNotReady = 1, errors = [''Row 6: protected cell'']\<rparr>"
proof -
  have w: "waSheet mixedStore = Some [firstWorkingRow, unreadyRow, readyRow, repeatedRow, blockedRow]"
    by (simp add: mixedStore_def)
  have p: "pushRows (resolveLabel examplePushEnv) (pushTimeOf examplePushEnv)
             [firstWorkingRow, unreadyRow, readyRow, repeatedRow, blockedRow] (protectedLrSheet, emptyTally)
           = ([firstWorkingRow, unreadyRow,
       readyRow\<lparr>waLastPushedAt := ''02/10/2026 9:15 AM ET'',
                waLastPushedText := ''Investigating internally''\<rparr>,
       repeatedRow, blockedRow],
      protectedLrSheet\<lparr>horizonComment := (horizonComment protectedLrSheet)(4 := pushedComment)\<rparr>,
      \<lparr>rowsConsidered = 4, rowsPushed = 1, rowsSkippedNoChange = 1, rowsSkippedNotReady = 1,
        errors = [''Row 6: protected cell'']\<rparr>)"
    unfolding examplePushEnv_ok by (rule mixed_push)
  have ne: "[firstWorkingRow, unreadyRow, readyRow, repeatedRow, blockedRow] \<noteq> []"
    by simp
  show ?thesis
    unfolding pushUpdatesToLiveRamp_complete [OF examplePushEnv_ok(1-3) w ne p] by simp
qed

section \<open>Properties of the sync engine\<close>

subsection \<open>Thread keys\<close>

text \<open>
  Claim C5 (thread-key identity stability). \<open>computeThreadKey_\<close> is a function of the
  Product, Workflow, Issue and Request columns alone: two rows that agree on these four
  columns have the same thread key, whatever their dates (and comments, and resolved
  flags) are. It has no failing branch: for every row, blank columns included, it
  returns a token, which is never the empty string.
\<close>

theorem threadKey_identity_stable:
  assumes "lrProduct r1 = lrProduct r2" and "lrWorkflow r1 = lrWorkflow r2"
    and "lrIssue r1 = lrIssue r2" and "lrRequest r1 = lrRequest r2"
  shows "computeThreadKey r1 = computeThreadKey r2 \<and> computeThreadKey r1 \<noteq> []"
  using assms by (simp add: computeThreadKey_def simpleHash_def toStringRadix_nonempty)

text \<open>
  The alert of the worked example and the same alert dated one day later differ in
  their dates and share the thread key \<open>f3sra7\<close>.
\<close>

theorem threadKey_identity_stable_witness:
  "lrDate exampleRow \<noteq> lrDate (exampleRow\<lparr>lrDate := ''2026-02-02''\<rparr>) \<and>
   computeThreadKey exampleRow = computeThreadKey (exampleRow\<lparr>lrDate := ''2026-02-02''\<rparr>) \<and>
   computeThreadKey exampleRow = ''f3sra7''"
  using threadKey_identity_stable [of exampleRow "exampleRow\<lparr>lrDate := ''2026-02-02''\<rparr>"]
  by (simp add: exampleRow_key) (simp add: exampleRow_def)

subsection \<open>Blank rows\<close>

text \<open>
  Claim C4 as stated (a fetched row is left out exactly when Product, Workflow, Issue and
  Request are all blank) fails in both directions. Row 2 of the fetched tab has an issue
  and a request but no date, product or workflow: it is left out. Row 3 has a date and
  nothing else, so the four columns of the claim are blank: it is kept, in Raw_Alerts and
  in Working_Alerts.
\<close>

theorem blank_row_skip_rule_counterexample:
  "\<not> (lrProduct issueOnlyRow = [] \<and> lrWorkflow issueOnlyRow = [] \<and>
      lrIssue issueOnlyRow = [] \<and> lrRequest issueOnlyRow = []) \<and>
   (lrProduct dateOnlyRow = [] \<and> lrWorkflow dateOnlyRow = [] \<and>
      lrIssue dateOnlyRow = [] \<and> lrRequest dateOnlyRow = []) \<and>
   map_option (map rawSourceRow)
     (rawSheet (fst (syncFromLiveRamp noDateValue (exampleSyncEnv [issueOnlyRow, dateOnlyRow]) emptyStore)))
   = Some [3] \<and>
   map_option (map waSourceRow)
     (waSheet (fst (syncFromLiveRamp noDateValue (exampleSyncEnv [issueOnlyRow, dateOnlyRow]) emptyStore)))
   = Some [3]"
  using blank_rows_sync by (simp add: issueOnlyRow_def dateOnlyRow_def)

text \<open>
  Claim C4, amended (blank-row skip rule). In a sync that runs to its end, the fetched row
  at position \<open>idx\<close> (source row \<open>headerRow + 1 + idx\<close>) is missing from the new
  Raw_Alerts and from the new Working_Alerts if and only if its Date, Product and Workflow
  columns are all blank; and it is in one tab exactly when it is in the other.
\<close>

theorem blank_row_skip_rule:
  assumes "lockAvailable env" and "configPresent env"
    and "trim (configUrl env) \<noteq> []"
    and "startsWith (trim (configUrl env)) ''https://docs.google.com/spreadsheets/''"
    and "lrSource env = Tab lrData" and "lrData \<noteq> []"
    and "rawSheet ss = Some previousRaw" and "waSheet ss = Some previousWa"
    and "headerRow = (if headerRowNumber env = 0 then 1 else headerRowNumber env)"
    and "idx < length lrData"
  shows "\<exists>rawRows waRows.
           rawSheet (fst (syncFromLiveRamp dateValue env ss)) = Some rawRows \<and>
           waSheet (fst (syncFromLiveRamp dateValue env ss)) = Some waRows \<and>
           ((headerRow + 1 + idx \<notin> rawSourceRow ` set rawRows \<and>
             headerRow + 1 + idx \<notin> waSourceRow ` set waRows)
            \<longleftrightarrow> (lrDate (lrData ! idx) = [] \<and> lrProduct (lrData ! idx) = [] \<and>
                 lrWorkflow (lrData ! idx) = [])) \<and>
           (headerRow + 1 + idx \<in> rawSourceRow ` set rawRows
            \<longleftrightarrow> headerRow + 1 + idx \<in> waSourceRow ` set waRows)"
proof -
  from syncFromLiveRamp_complete [OF assms(1-8), of dateValue]
  obtain rawRows waRows where
    raw: "rawRows = processRows (loadPreviousRawData previousRaw) (syncTime env) headerRow 0 lrData"
    and wa: "updateWorkingAlerts dateValue (Some previousWa) rawRows = Inr waRows"
    and res: "syncFromLiveRamp dateValue env ss
             = (ss\<lparr>rawSheet := Some rawRows, waSheet := Some waRows\<rparr>, SyncComplete (length rawRows))"
    unfolding assms(9) by blast
  have src: "rawSourceRow ` set rawRows = {headerRow + 1 + 0 + i | i. i < length lrData \<and> \<not> skipRow (lrData ! i)}"
    unfolding raw by (rule sourceRows_processRows)
  have same: "waSourceRow ` set waRows = rawSourceRow ` set rawRows"
    by (rule sourceRows_updateWorkingAlerts [OF wa])
  have mem: "headerRow + 1 + idx \<in> rawSourceRow ` set rawRows \<longleftrightarrow> \<not> skipRow (lrData ! idx)"
    unfolding src using assms(10) by auto
  show ?thesis
    unfolding res using mem same by (auto simp: skipRow_def)
qed

text \<open>
  In the sync of the two sparse rows, source row 2 (no date, product or workflow, but an
  issue) is in neither tab.
\<close>

theorem blank_row_skip_rule_witness:
  "\<exists>rawRows waRows.
     rawSheet (fst (syncFromLiveRamp noDateValue (exampleSyncEnv [issueOnlyRow, dateOnlyRow]) emptyStore))
       = Some rawRows \<and>
     waSheet (fst (syncFromLiveRamp noDateValue (exampleSyncEnv [issueOnlyRow, dateOnlyRow]) emptyStore))
       = Some waRows \<and>
     2 \<notin> rawSourceRow ` set rawRows \<and> 2 \<notin> waSourceRow ` set waRows \<and>
     lrIssue issueOnlyRow \<noteq> []"
proof -
  have skip: "lrDate ([issueOnlyRow, dateOnlyRow] ! 0) = [] \<and> lrProduct ([issueOnlyRow, dateOnlyRow] ! 0) = []
              \<and> lrWorkflow ([issueOnlyRow, dateOnlyRow] ! 0) = []"
    by (simp add: issueOnlyRow_def)
  have st: "rawSheet emptyStore = Some []" "waSheet emptyStore = Some []"
    by (simp_all add: emptyStore_def)
  have e: "(1::nat) + 1 + 0 = 2" by simp
  have h: "(1::nat) = (if headerRowNumber (exampleSyncEnv [issueOnlyRow, dateOnlyRow]) = 0 then 1
                else headerRowNumber (exampleSyncEnv [issueOnlyRow, dateOnlyRow]))"
    by (simp add: exampleSyncEnv_ok)
  have "\<exists>rawRows waRows.
           rawSheet (fst (syncFromLiveRamp noDateValue (exampleSyncEnv [issueOnlyRow, dateOnlyRow]) emptyStore))
             = Some rawRows \<and>
           waSheet (fst (syncFromLiveRamp noDateValue (exampleSyncEnv [issueOnlyRow, dateOnlyRow]) emptyStore))
             = Some waRows \<and>
           ((1 + 1 + 0 \<notin> rawSourceRow ` set rawRows \<and> 1 + 1 + 0 \<notin> waSourceRow ` set waRows)
            \<longleftrightarrow> (lrDate ([issueOnlyRow, dateOnlyRow] ! 0) = [] \<and>
                 lrProduct ([issueOnlyRow, dateOnlyRow] ! 0) = [] \<and>
                 lrWorkflow ([issueOnlyRow, dateOnlyRow] ! 0) = [])) \<and>
           (1 + 1 + 0 \<in> rawSourceRow ` set rawRows
            \<longleftrightarrow> 1 + 1 + 0 \<in> waSourceRow ` set waRows)"
    by (rule blank_row_skip_rule [where previousRaw = "[]" and previousWa = "[]"])
       (simp_all add: exampleSyncEnv_ok st)
  then obtain rawRows waRows where
    "rawSheet (fst (syncFromLiveRamp noDateValue (exampleSyncEnv [issueOnlyRow, dateOnlyRow]) emptyStore))
       = Some rawRows"
    "waSheet (fst (syncFromLiveRamp noDateValue (exampleSyncEnv [issueOnlyRow, dateOnlyRow]) emptyStore))
       = Some waRows"
    "2 \<notin> rawSourceRow ` set rawRows \<and> 2 \<notin> waSourceRow ` set waRows"
    unfolding e using skip by blast
  moreover have "lrIssue issueOnlyRow \<noteq> []"
    by (simp add: issueOnlyRow_def)
  ultimately show ?thesis by blast
qed

subsection \<open>Duplicate keys in the stored tabs\<close>




subsection \<open>Human-entered fields\<close>

text \<open>
  Claim C2 (human-field preservation). Let \<open>prev\<close> be the stored working row for a
  composite key (the last one with that key; the only one when keys are unique), and let
  the new batch contain a raw row with that key. Then the sync writes a working row for
  that raw row, with the raw row's LiveRamp columns, thread key, row hash and source row
  number, whose Template, FreeText, PushReady, LastPushedAt, LastPushedText,
  ReadyToResolve and InternalNotes are those of \<open>prev\<close>; and every working row it
  writes under that key has these seven fields from \<open>prev\<close>. No condition is put on
  the hashes or on the ready-to-resolve flag, so this holds in every branch of the group
  computation.
\<close>

theorem human_fields_carried_forward:
  assumes "prevWa = before @ prev # after"
    and "\<forall>q \<in> set after. compositeKey (waThreadKey q) (waSourceRow q)
                            \<noteq> compositeKey (waThreadKey prev) (waSourceRow prev)"
    and "rawRow \<in> set rawRows"
    and "compositeKey (rawThreadKey rawRow) (rawSourceRow rawRow)
         = compositeKey (waThreadKey prev) (waSourceRow prev)"
  shows "\<exists>out. updateWorkingAlerts dateValue (Some prevWa) rawRows = Inr out \<and>
           (\<exists>w \<in> set out. waLr w = rawLr rawRow \<and> waThreadKey w = rawThreadKey rawRow \<and>
                           waRowHash w = rawRowHash rawRow \<and> waSourceRow w = rawSourceRow rawRow \<and>
                           humanFields w = humanFields prev) \<and>
           (\<forall>w \<in> set out. compositeKey (waThreadKey w) (waSourceRow w)
                             = compositeKey (waThreadKey prev) (waSourceRow prev)
                           \<longrightarrow> humanFields w = humanFields prev)"
proof -
  let ?ex = "loadExistingWorkingAlerts prevWa"
  let ?k = "compositeKey (waThreadKey prev) (waSourceRow prev)"
  obtain out where out: "updateWorkingAlerts dateValue (Some prevWa) rawRows = Inr out"
    by (simp add: updateWorkingAlerts_def Let_def)
  have look: "?ex ?k = Some (waEntry prev)"
    unfolding assms(1) by (rule loadExisting_last [OF assms(2)])
  have setout: "set out = (\<lambda>r. autoCompose (workingRow ?ex r)) ` set rawRows"
    by (rule set_updateWorkingAlerts [OF out])
  have one: "\<exists>w \<in> set out. waLr w = rawLr rawRow \<and> waThreadKey w = rawThreadKey rawRow \<and>
                           waRowHash w = rawRowHash rawRow \<and> waSourceRow w = rawSourceRow rawRow \<and>
                           humanFields w = humanFields prev"
  proof (rule bexI [where x = "autoCompose (workingRow ?ex rawRow)"])
    show "autoCompose (workingRow ?ex rawRow) \<in> set out"
      using assms(3) by (simp add: setout)
    show "waLr (autoCompose (workingRow ?ex rawRow)) = rawLr rawRow \<and>
          waThreadKey (autoCompose (workingRow ?ex rawRow)) = rawThreadKey rawRow \<and>
          waRowHash (autoCompose (workingRow ?ex rawRow)) = rawRowHash rawRow \<and>
          waSourceRow (autoCompose (workingRow ?ex rawRow)) = rawSourceRow rawRow \<and>
          humanFields (autoCompose (workingRow ?ex rawRow)) = humanFields prev"
      using look assms(4) by (simp add: workingRow_existing)
  qed
  have all: "\<forall>w \<in> set out. compositeKey (waThreadKey w) (waSourceRow w) = ?k
                           \<longrightarrow> humanFields w = humanFields prev"
  proof (intro ballI impI)
    fix w assume "w \<in> set out" and k: "compositeKey (waThreadKey w) (waSourceRow w) = ?k"
    then obtain r where r: "r \<in> set rawRows" and w: "w = autoCompose (workingRow ?ex r)"
      by (auto simp: setout)
    from k have "compositeKey (rawThreadKey r) (rawSourceRow r) = ?k" by (simp add: w)
    with look show "humanFields w = humanFields prev"
      by (simp add: w workingRow_existing)
  qed
  from out one all show ?thesis by blast
qed

text \<open>
  The annotated row of the example, found behind an older row with the same key, and a
  raw row whose hash has changed: the seven fields arrive unchanged.
\<close>

theorem human_fields_carried_forward_witness:
  "\<exists>out. updateWorkingAlerts noDateValue (Some [firstWorkingRow, annotatedRow]) [changedRaw] = Inr out \<and>
         (\<exists>w \<in> set out. waRowHash w = ''804a4q'' \<and>
            humanFields w = (''Investigating internally'', ''ETA 2 weeks'', True,
                             ''02/10/2026 9:15 AM ET'', ''Investigating internally'', False,
                             ''Vendor said 2 weeks ETA''))"
proof -
  have hf: "humanFields annotatedRow = (''Investigating internally'', ''ETA 2 weeks'', True,
                             ''02/10/2026 9:15 AM ET'', ''Investigating internally'', False,
                             ''Vendor said 2 weeks ETA'')"
    by (simp add: humanFields_def annotatedRow_def pushedWorkingRow_def firstWorkingRow_def)
  have k: "compositeKey (rawThreadKey changedRaw) (rawSourceRow changedRaw)
           = compositeKey (waThreadKey annotatedRow) (waSourceRow annotatedRow)"
    by (simp add: changedRaw_key example_keys)
  from human_fields_carried_forward
         [of "[firstWorkingRow, annotatedRow]" "[firstWorkingRow]" annotatedRow "[]"
             changedRaw "[changedRaw]" noDateValue, OF _ _ _ k]
  obtain out where
    "updateWorkingAlerts noDateValue (Some [firstWorkingRow, annotatedRow]) [changedRaw] = Inr out"
    and "\<exists>w \<in> set out. waLr w = rawLr changedRaw \<and> waThreadKey w = rawThreadKey changedRaw \<and>
                           waRowHash w = rawRowHash changedRaw \<and> waSourceRow w = rawSourceRow changedRaw \<and>
                           humanFields w = humanFields annotatedRow"
    by auto
  then show ?thesis
    by (auto simp: hf changedRaw_value)
qed

subsection \<open>The composed message\<close>

text \<open>
  Claim C8 (composition rule). In every working row that a sync writes, the value of the
  composed-update column is \<open>Template + ", " + FreeText\<close> when both are non-empty, the
  non-empty one when exactly one is, and empty when both are empty. The previous content
  of the column plays no part: there is no assumption on the stored tab.
\<close>

theorem composed_message_rule:
  assumes "updateWorkingAlerts dateValue waTab rawRows = Inr out"
    and "w \<in> set out"
  shows "waComposedValue w =
           (if waTemplate w \<noteq> [] \<and> waFreeText w \<noteq> [] then waTemplate w @ '', '' @ waFreeText w
            else if waTemplate w \<noteq> [] then waTemplate w
            else if waFreeText w \<noteq> [] then waFreeText w
            else [])"
proof -
  from assms(1) obtain data where tab: "waTab = Some data"
    by (cases waTab) (simp_all add: updateWorkingAlerts_def)
  from assms obtain r where "w = autoCompose (workingRow (loadExistingWorkingAlerts data) r)"
    unfolding tab by (auto dest!: set_updateWorkingAlerts)
  then show ?thesis
    using waComposedValue_autoCompose [of "workingRow (loadExistingWorkingAlerts data) r"]
    by simp
qed

text \<open>
  The stored row held the composed text \<open>stale text\<close>; after the sync the column
  holds template and free text joined.
\<close>

theorem composed_message_rule_witness:
  "updateWorkingAlerts noDateValue (Some [firstWorkingRow, annotatedRow]) [changedRaw]
     = Inr [reconciledRow] \<and>
   waComposedValue annotatedRow = ''stale text'' \<and>
   waComposedValue reconciledRow = ''Investigating internally, ETA 2 weeks''"
proof -
  have "reconciledRow \<in> set [reconciledRow]" by simp
  from composed_message_rule [OF annotated_update this]
  have "waComposedValue reconciledRow = ''Investigating internally, ETA 2 weeks''"
    by (simp add: reconciledRow_def annotatedRow_def pushedWorkingRow_def firstWorkingRow_def)
  moreover have "waComposedValue annotatedRow = ''stale text''"
    by (simp add: waComposedValue_def annotatedRow_def)
  ultimately show ?thesis
    using annotated_update by simp
qed

subsection \<open>Updates after resolution\<close>

text \<open>
  Claim C9 (sticky post-resolution flag). Let \<open>prev\<close> be the stored working row for a
  composite key and let the new batch contain a raw row with that key. For every working
  row the sync writes under that key: if its row hash differs from the stored one and
  \<open>prev\<close> was ready to be resolved, its group is \<open>Resolved\<close> and its
  updated-after-resolution flag is set; and if the flag was set in \<open>prev\<close>, it is set
  in the new row.
\<close>

theorem updated_after_resolution_sticky:
  assumes "prevWa = before @ prev # after"
    and "\<forall>q \<in> set after. compositeKey (waThreadKey q) (waSourceRow q)
                            \<noteq> compositeKey (waThreadKey prev) (waSourceRow prev)"
    and "rawRow \<in> set rawRows"
    and "compositeKey (rawThreadKey rawRow) (rawSourceRow rawRow)
         = compositeKey (waThreadKey prev) (waSourceRow prev)"
  shows "\<exists>out. updateWorkingAlerts dateValue (Some prevWa) rawRows = Inr out \<and>
           (\<exists>w \<in> set out. waThreadKey w = rawThreadKey rawRow \<and> waSourceRow w = rawSourceRow rawRow \<and>
                           waRowHash w = rawRowHash rawRow) \<and>
           (\<forall>w \<in> set out. compositeKey (waThreadKey w) (waSourceRow w)
                             = compositeKey (waThreadKey prev) (waSourceRow prev) \<longrightarrow>
                (waRowHash prev \<noteq> waRowHash w \<and> waReadyToResolve prev \<longrightarrow>
                   waGroup w = ''Resolved'' \<and> waLrUpdatedAfterRes w) \<and>
                (waLrUpdatedAfterRes prev \<longrightarrow> waLrUpdatedAfterRes w))"
proof -
  let ?ex = "loadExistingWorkingAlerts prevWa"
  let ?k = "compositeKey (waThreadKey prev) (waSourceRow prev)"
  obtain out where out: "updateWorkingAlerts dateValue (Some prevWa) rawRows = Inr out"
    by (simp add: updateWorkingAlerts_def Let_def)
  have look: "?ex ?k = Some (waEntry prev)"
    unfolding assms(1) by (rule loadExisting_last [OF assms(2)])
  have setout: "set out = (\<lambda>r. autoCompose (workingRow ?ex r)) ` set rawRows"
    by (rule set_updateWorkingAlerts [OF out])
  have one: "\<exists>w \<in> set out. waThreadKey w = rawThreadKey rawRow \<and> waSourceRow w = rawSourceRow rawRow \<and>
                           waRowHash w = rawRowHash rawRow"
    using assms(3) by (auto simp: setout)
  have all: "\<forall>w \<in> set out. compositeKey (waThreadKey w) (waSourceRow w) = ?k \<longrightarrow>
                (waRowHash prev \<noteq> waRowHash w \<and> waReadyToResolve prev \<longrightarrow>
                   waGroup w = ''Resolved'' \<and> waLrUpdatedAfterRes w) \<and>
                (waLrUpdatedAfterRes prev \<longrightarrow> waLrUpdatedAfterRes w)"
  proof (intro ballI impI)
    fix w assume "w \<in> set out" and k: "compositeKey (waThreadKey w) (waSourceRow w) = ?k"
    then obtain r where r: "r \<in> set rawRows" and w: "w = autoCompose (workingRow ?ex r)"
      by (auto simp: setout)
    from k look have ex: "?ex (compositeKey (rawThreadKey r) (rawSourceRow r)) = Some (waEntry prev)"
      by (simp add: w)
    show "(waRowHash prev \<noteq> waRowHash w \<and> waReadyToResolve prev \<longrightarrow>
             waGroup w = ''Resolved'' \<and> waLrUpdatedAfterRes w) \<and>
          (waLrUpdatedAfterRes prev \<longrightarrow> waLrUpdatedAfterRes w)"
      using workingRow_changed_resolved [of ?ex r prev, OF ex]
        workingRow_flag_kept [of ?ex r prev, OF ex]
      by (simp add: w)
  qed
  from out one all show ?thesis by blast
qed

text \<open>
  The resolved row of the example, not yet flagged, and a raw row with a new hash: the
  new working row is in group \<open>Resolved\<close> and flagged.
\<close>

theorem updated_after_resolution_sticky_witness:
  "waRowHash resolvedRow \<noteq> rawRowHash changedRaw \<and> waReadyToResolve resolvedRow \<and>
   \<not> waLrUpdatedAfterRes resolvedRow \<and>
   (\<exists>out. updateWorkingAlerts noDateValue (Some [resolvedRow]) [changedRaw] = Inr out \<and>
          (\<exists>w \<in> set out. waRowHash w = ''804a4q'' \<and> waGroup w = ''Resolved'' \<and>
                          waLrUpdatedAfterRes w))"
proof -
  have facts: "waRowHash resolvedRow \<noteq> rawRowHash changedRaw" "waReadyToResolve resolvedRow"
    "\<not> waLrUpdatedAfterRes resolvedRow"
    by (simp_all add: resolvedRow_def annotatedRow_def pushedWorkingRow_def firstWorkingRow_def
        changedRaw_value)
  have k: "compositeKey (rawThreadKey changedRaw) (rawSourceRow changedRaw)
           = compositeKey (waThreadKey resolvedRow) (waSourceRow resolvedRow)"
    by (simp add: changedRaw_key example_keys)
  from updated_after_resolution_sticky
         [of "[resolvedRow]" "[]" resolvedRow "[]" changedRaw "[changedRaw]" noDateValue, OF _ _ _ k]
  obtain out where out: "updateWorkingAlerts noDateValue (Some [resolvedRow]) [changedRaw] = Inr out"
    and ex: "\<exists>w \<in> set out. waThreadKey w = rawThreadKey changedRaw \<and>
                waSourceRow w = rawSourceRow changedRaw \<and> waRowHash w = rawRowHash changedRaw"
    and all: "\<forall>w \<in> set out. compositeKey (waThreadKey w) (waSourceRow w)
                             = compositeKey (waThreadKey resolvedRow) (waSourceRow resolvedRow) \<longrightarrow>
                (waRowHash resolvedRow \<noteq> waRowHash w \<and> waReadyToResolve resolvedRow \<longrightarrow>
                   waGroup w = ''Resolved'' \<and> waLrUpdatedAfterRes w) \<and>
                (waLrUpdatedAfterRes resolvedRow \<longrightarrow> waLrUpdatedAfterRes w)"
    by auto
  from ex obtain w where w: "w \<in> set out" "waThreadKey w = rawThreadKey changedRaw"
    "waSourceRow w = rawSourceRow changedRaw" "waRowHash w = rawRowHash changedRaw"
    by blast
  from w k have "compositeKey (waThreadKey w) (waSourceRow w)
                 = compositeKey (waThreadKey resolvedRow) (waSourceRow resolvedRow)"
    by simp
  with all w(1) facts w(4) have "waGroup w = ''Resolved'' \<and> waLrUpdatedAfterRes w"
    by auto
  with w have "\<exists>w \<in> set out. waRowHash w = ''804a4q'' \<and> waGroup w = ''Resolved'' \<and>
                          waLrUpdatedAfterRes w"
    by (auto simp: changedRaw_value)
  with out facts show ?thesis by blast
qed

text \<open>
  Hence the flag survives any number of syncs, as long as each batch still has a row with
  the key.
\<close>

lemma flagged_step:
  assumes "flagged k wa"
    and "\<exists>r \<in> set rawRows. compositeKey (rawThreadKey r) (rawSourceRow r) = k"
    and "updateWorkingAlerts dateValue (Some wa) rawRows = Inr out"
  shows "flagged k out"
proof -
  let ?key = "\<lambda>w. compositeKey (waThreadKey w) (waSourceRow w)"
  from assms(1) have "\<exists>w \<in> set wa. ?key w = k" by (simp add: flagged_def)
  from split_list_last_prop [OF this]
  obtain before prev after where
    wa: "wa = before @ prev # after" and kp: "?key prev = k"
    and last: "\<forall>q \<in> set after. ?key q \<noteq> k"
    by blast
  from assms(1) wa kp have fl: "waLrUpdatedAfterRes prev" by (simp add: flagged_def)
  from assms(2) obtain r where r: "r \<in> set rawRows" "compositeKey (rawThreadKey r) (rawSourceRow r) = k"
    by blast
  have look: "loadExistingWorkingAlerts wa k = Some (waEntry prev)"
    using loadExisting_last [of after prev before] last kp wa by simp
  have setout: "set out = (\<lambda>r. autoCompose (workingRow (loadExistingWorkingAlerts wa) r)) ` set rawRows"
    by (rule set_updateWorkingAlerts [OF assms(3)])
  have one: "\<exists>w \<in> set out. ?key w = k"
    using r by (auto simp: setout)
  have all: "\<forall>w \<in> set out. ?key w = k \<longrightarrow> waLrUpdatedAfterRes w"
  proof (intro ballI impI)
    fix w assume "w \<in> set out" and k: "?key w = k"
    then obtain r' where w: "w = autoCompose (workingRow (loadExistingWorkingAlerts wa) r')"
      by (auto simp: setout)
    from k look have "loadExistingWorkingAlerts wa (compositeKey (rawThreadKey r') (rawSourceRow r'))
                      = Some (waEntry prev)"
      by (simp add: w)
    from workingRow_flag_kept [of "loadExistingWorkingAlerts wa" r' prev, OF this fl]
    show "waLrUpdatedAfterRes w" by (simp add: w)
  qed
  from one all show ?thesis by (simp add: flagged_def)
qed

lemma flagged_forever:
  assumes "flagged k wa"
    and "\<forall>rawRows \<in> set batches. \<exists>r \<in> set rawRows. compositeKey (rawThreadKey r) (rawSourceRow r) = k"
  shows "flagged k (syncRepeatedly dateValue wa batches)"
  using assms
proof (induction batches arbitrary: wa)
  case Nil
  then show ?case by simp
next
  case (Cons rawRows later)
  obtain out where out: "updateWorkingAlerts dateValue (Some wa) rawRows = Inr out"
    by (simp add: updateWorkingAlerts_def Let_def)
  from Cons.prems have "flagged k out"
    by (intro flagged_step [OF _ _ out]) simp_all
  with Cons show ?case by (simp add: out)
qed

section \<open>Properties of the push engine\<close>

subsection \<open>Counters\<close>

text \<open>
  Claim C10 (push-cycle counter partition). When a push cycle runs to its end, the rows
  considered are the rows pushed, the rows skipped as unchanged, the rows skipped as not
  ready and the rows that failed, each counted once. The rows considered are the rows
  whose composed update, trimmed, is non-empty, so a row with an empty composed update is
  in no counter. The row appended to Push_Log carries the same four counters and the
  failures joined by \<open>"; "\<close>.
\<close>

theorem push_counters_partition:
  assumes "pushUpdatesToLiveRamp env ss lr = (ss', lr', PushComplete t)"
  shows "rowsConsidered t
           = rowsPushed t + rowsSkippedNoChange t + rowsSkippedNotReady t + length (errors t) \<and>
         (\<exists>waData. waSheet ss = Some waData \<and>
            rowsConsidered t = length (filter (\<lambda>row. trim (waComposedValue row) \<noteq> []) waData)) \<and>
         (\<forall>rows. pushLog ss = Some rows \<longrightarrow>
            (\<exists>entry. pushLog ss' = Some (rows @ [entry]) \<and>
               logConsidered entry = rowsConsidered t \<and> logPushed entry = rowsPushed t \<and>
               logSkippedNoChange entry = rowsSkippedNoChange t \<and>
               logSkippedNotReady entry = rowsSkippedNotReady t \<and>
               logErrorStr entry = join ''; '' (errors t) \<and>
               logConsidered entry = logPushed entry + logSkippedNoChange entry
                                     + logSkippedNotReady entry + length (errors t)))"
proof -
  from assms obtain waData lrSheet where
    wa: "waSheet ss = Some waData" and lr: "lr = LrTab lrSheet"
    by (auto simp: pushUpdatesToLiveRamp_def Let_def split: if_splits option.splits lr_target.splits)
  obtain waData' lrSheet' t' where
    run: "pushRows (resolveLabel env) (pushTimeOf env) waData (lrSheet, emptyTally) = (waData', lrSheet', t')"
    by (cases "pushRows (resolveLabel env) (pushTimeOf env) waData (lrSheet, emptyTally)") auto
  from assms wa lr run have t: "t' = t"
    and ss': "ss' = logPush (ss\<lparr>waSheet := Some waData'\<rparr>) (pushLogTime env) (pushRunId env) t"
    by (auto simp: pushUpdatesToLiveRamp_def Let_def split: if_splits)
  have "balanced (snd (snd (pushRows (resolveLabel env) (pushTimeOf env) waData (lrSheet, emptyTally))))"
    by (rule pushRows_balanced) (simp add: balanced_def emptyTally_def)
  then have bal: "rowsConsidered t
           = rowsPushed t + rowsSkippedNoChange t + rowsSkippedNotReady t + length (errors t)"
    by (simp add: run t balanced_def)
  have cons: "rowsConsidered t = length (filter (\<lambda>row. trim (waComposedValue row) \<noteq> []) waData)"
    using pushRows_considered [of "resolveLabel env" "pushTimeOf env" waData "(lrSheet, emptyTally)"]
    unfolding run by (simp add: t emptyTally_def)
  have log: "\<forall>rows. pushLog ss = Some rows \<longrightarrow>
            (\<exists>entry. pushLog ss' = Some (rows @ [entry]) \<and>
               logConsidered entry = rowsConsidered t \<and> logPushed entry = rowsPushed t \<and>
               logSkippedNoChange entry = rowsSkippedNoChange t \<and>
               logSkippedNotReady entry = rowsSkippedNotReady t \<and>
               logErrorStr entry = join ''; '' (errors t) \<and>
               logConsidered entry = logPushed entry + logSkippedNoChange entry
                                     + logSkippedNotReady entry + length (errors t))"
  proof (intro allI impI)
    fix rows assume "pushLog ss = Some rows"
    then have "pushLog (ss\<lparr>waSheet := Some waData'\<rparr>) = Some rows" by simp
    from logPush_counters [OF this, of "pushLogTime env" "pushRunId env" t]
    obtain entry where e: "pushLog ss' = Some (rows @ [entry])"
      "logConsidered entry = rowsConsidered t" "logPushed entry = rowsPushed t"
      "logSkippedNoChange entry = rowsSkippedNoChange t"
      "logSkippedNotReady entry = rowsSkippedNotReady t"
      "logErrorStr entry = join ''; '' (errors t)"
      unfolding ss' by blast
    with bal show "\<exists>entry. pushLog ss' = Some (rows @ [entry]) \<and>
               logConsidered entry = rowsConsidered t \<and> logPushed entry = rowsPushed t \<and>
               logSkippedNoChange entry = rowsSkippedNoChange t \<and>
               logSkippedNotReady entry = rowsSkippedNotReady t \<and>
               logErrorStr entry = join ''; '' (errors t) \<and>
               logConsidered entry = logPushed entry + logSkippedNoChange entry
                                     + logSkippedNotReady entry + length (errors t)"
      by auto
  qed
  from bal cons wa log show ?thesis by blast
qed

text \<open>
  One cycle over five rows: one without a message, one not ready, one pushed, one already
  pushed and one whose LiveRamp cell is protected.
\<close>

theorem push_counters_partition_witness:
  "snd (snd (pushUpdatesToLiveRamp examplePushEnv mixedStore (LrTab protectedLrSheet)))
     = PushComplete \<lparr>rowsConsidered = 4, rowsPushed = 1, rowsSkippedNoChange = 1,
                       rowsSkippedNotReady = 1, errors = [''Row 6: protected cell'']\<rparr> \<and>
   length (filter (\<lambda>row. trim (waComposedValue row) \<noteq> [])
             [firstWorkingRow, unreadyRow, readyRow, repeatedRow, blockedRow]) = 4 \<and>
   (4::nat) = 1 + 1 + 1 + length [''Row 6: protected cell''] \<and>
   map_option (map logConsidered)
     (pushLog (fst (pushUpdatesToLiveRamp examplePushEnv mixedStore (LrTab protectedLrSheet))))
     = Some [4] \<and>
   map_option (map logErrorStr)
     (pushLog (fst (pushUpdatesToLiveRamp examplePushEnv mixedStore (LrTab protectedLrSheet))))
     = Some [''Row 6: protected cell'']"
proof -
  let ?r = "pushUpdatesToLiveRamp examplePushEnv mixedStore (LrTab protectedLrSheet)"
  let ?t = "\<lparr>rowsConsidered = 4, rowsPushed = 1, rowsSkippedNoChange = 1,
                       rowsSkippedNotReady = 1, errors = [''Row 6: protected cell'']\<rparr>"
  have "?r = (fst ?r, fst (snd ?r), PushComplete ?t)"
    using mixed_cycle by (metis prod.collapse)
  note inst = push_counters_partition [OF this]
  from inst
  have "\<exists>waData. waSheet mixedStore = Some waData \<and>
            rowsConsidered ?t = length (filter (\<lambda>row. trim (waComposedValue row) \<noteq> []) waData)"
    by blast
  then have rows: "length (filter (\<lambda>row. trim (waComposedValue row) \<noteq> [])
             [firstWorkingRow, unreadyRow, readyRow, repeatedRow, blockedRow]) = 4"
    by (simp add: mixedStore_def)
  have "pushLog mixedStore = Some []"
    by (simp add: mixedStore_def)
  with inst obtain entry where "pushLog (fst ?r) = Some ([] @ [entry])"
    "logConsidered entry = rowsConsidered ?t" "logErrorStr entry = join ''; '' (errors ?t)"
    by blast
  then have log: "map_option (map logConsidered) (pushLog (fst ?r)) = Some [4]"
    "map_option (map logErrorStr) (pushLog (fst ?r)) = Some [''Row 6: protected cell'']"
    by simp_all
  from mixed_cycle rows log show ?thesis by simp
qed

subsection \<open>Appending to the comment cell\<close>

text \<open>
  Claim C6 as stated (the new comment is exactly the old one followed by the separator and
  the new entry) fails when the old comment has white space at its end: the cell held
  \<open>"A "\<close>, the push went through, and the new content does not start with the old one.
\<close>

theorem append_only_writeback_counterexample:
  "horizonComment spacedLrSheet 2 = ''A '' \<and>
   rowsPushed (snd (snd (pushRow ''READY TO BE RESOLVED'' ''02/10/2026 9:15 AM ET'' respondedRow
                           (spacedLrSheet, emptyTally)))) = rowsPushed emptyTally + 1 \<and>
   horizonComment (fst (snd (pushRow ''READY TO BE RESOLVED'' ''02/10/2026 9:15 AM ET'' respondedRow
                               (spacedLrSheet, emptyTally)))) 2
     \<noteq> horizonComment spacedLrSheet 2 @ newline @ newline @ ''02/10/2026 9:15 AM ET'' @ newline
        @ ''Horizon: '' @ waComposedValue respondedRow"
  by (simp add: spaced_push responded_composed pushedComment_def)
     (simp add: spacedLrSheet_def emptyTally_def newline_def)

text \<open>
  Claim C6, amended (append-only writeback). When the push of a row goes through, the
  comment cell of its source row becomes: the old content with leading and trailing white
  space removed; two newlines, if that is non-empty; the formatted time and \<open>" ET"\<close>; a
  newline; \<open>"Horizon: "\<close> and the trimmed composed update. The cells of the other rows
  are unchanged.
\<close>

theorem append_only_writeback:
  assumes "pushRow label (pushTimeOf env) row (lrSheet, t) = (row', lrSheet', t')"
    and "rowsPushed t' = rowsPushed t + 1"
  shows "horizonComment lrSheet' (waSourceRow row)
           = trim (horizonComment lrSheet (waSourceRow row))
             @ (if trim (horizonComment lrSheet (waSourceRow row)) \<noteq> [] then newline @ newline else [])
             @ pushTimeFormatted env @ '' ET'' @ newline
             @ ''Horizon: '' @ trim (waComposedValue row) \<and>
         (\<forall>n. n \<noteq> waSourceRow row \<longrightarrow> horizonComment lrSheet' n = horizonComment lrSheet n)"
  using assms
  by (auto simp: pushRow_def Let_def pushTimeOf_def split: if_splits option.splits)

text \<open>
  The push of the worked example, into an empty comment cell: the new content starts with
  the time stamp.
\<close>

theorem append_only_writeback_witness:
  "pushRow ''READY TO BE RESOLVED'' (pushTimeOf examplePushEnv) respondedRow (blankLrSheet, emptyTally)
     = (pushedWorkingRow,
        blankLrSheet\<lparr>horizonComment := (horizonComment blankLrSheet)(2 := pushedComment)\<rparr>,
        \<lparr>rowsConsidered = 1, rowsPushed = 1, rowsSkippedNoChange = 0,
          rowsSkippedNotReady = 0, errors = []\<rparr>) \<and>
   horizonComment (blankLrSheet\<lparr>horizonComment := (horizonComment blankLrSheet)(2 := pushedComment)\<rparr>) 2
     = ''02/10/2026 9:15 AM ET'' @ newline @ ''Horizon: Investigating internally''"
proof -
  have pt: "pushTimeOf examplePushEnv = ''02/10/2026 9:15 AM ET''"
    by (simp add: pushTimeOf_def examplePushEnv_def)
  have run: "pushRow ''READY TO BE RESOLVED'' (pushTimeOf examplePushEnv) respondedRow (blankLrSheet, emptyTally)
     = (pushedWorkingRow,
        blankLrSheet\<lparr>horizonComment := (horizonComment blankLrSheet)(2 := pushedComment)\<rparr>,
        \<lparr>rowsConsidered = 1, rowsPushed = 1, rowsSkippedNoChange = 0,
          rowsSkippedNotReady = 0, errors = []\<rparr>)"
    unfolding pt emptyTally_def by (rule responded_push [unfolded emptyTally_def])
  have "rowsPushed \<lparr>rowsConsidered = 1, rowsPushed = 1, rowsSkippedNoChange = 0,
          rowsSkippedNotReady = 0, errors = []\<rparr> = rowsPushed emptyTally + 1"
    by (simp add: emptyTally_def)
  from append_only_writeback [OF run this]
  have "horizonComment (blankLrSheet\<lparr>horizonComment := (horizonComment blankLrSheet)(2 := pushedComment)\<rparr>) 2
     = ''02/10/2026 9:15 AM ET'' @ newline @ ''Horizon: Investigating internally''"
    by (simp add: responded_facts responded_composed trim_template blankLrSheet_def trim_nil
        examplePushEnv_def)
  with run show ?thesis by simp
qed

subsection \<open>Duplicate suppression\<close>

text \<open>
  Claim C7 (duplicate suppression). For a row that is considered (its composed update is
  not blank) and eligible (ticked as push-ready, or carrying the resolution label): the
  step counts it as skipped-no-change exactly when the composed update and the last
  pushed text are equal after lower-casing and removal of all white space; in that case
  nothing is written, to LiveRamp or to the row. And when the step pushes the row, the
  row's last pushed text becomes the message sent, so that the next step on that row, at
  any later time, is a skip counted as no-change that writes nothing.
\<close>

theorem duplicate_suppression:
  assumes "trim (waComposedValue row) \<noteq> []"
    and "waPushReady row \<or> trim (waTemplate row) = label"
    and "pushRow label pushTime row (lrSheet, t) = (row', lrSheet', t')"
  shows "(rowsSkippedNoChange t' = rowsSkippedNoChange t + 1
            \<longleftrightarrow> removeWhiteSpace (toLowerCase (waComposedValue row))
                 = removeWhiteSpace (toLowerCase (waLastPushedText row))) \<and>
         (rowsSkippedNoChange t' = rowsSkippedNoChange t + 1 \<longrightarrow>
            lrSheet' = lrSheet \<and> row' = row \<and> rowsPushed t' = rowsPushed t \<and>
            rowsConsidered t' = rowsConsidered t + 1) \<and>
         (rowsPushed t' = rowsPushed t + 1 \<longrightarrow>
            waLastPushedText row' = trim (waComposedValue row) \<and>
            waComposedValue row' = waComposedValue row \<and>
            pushRow label pushTime2 row' (lrSheet', t')
              = (row', lrSheet', t'\<lparr>rowsConsidered := rowsConsidered t' + 1,
                                     rowsSkippedNoChange := rowsSkippedNoChange t' + 1\<rparr>))"
proof -
  let ?eq = "removeWhiteSpace (toLowerCase (waComposedValue row))
                 = removeWhiteSpace (toLowerCase (waLastPushedText row))"
  show ?thesis
  proof (cases ?eq)
    case True
    from pushRow_no_change [OF assms(1,2) True, of pushTime lrSheet t] assms(3)
    have "row' = row" "lrSheet' = lrSheet"
      "t' = t\<lparr>rowsConsidered := rowsConsidered t + 1,
             rowsSkippedNoChange := rowsSkippedNoChange t + 1\<rparr>"
      by simp_all
    with True show ?thesis by simp
  next
    case False
    show ?thesis
    proof (cases "accessError lrSheet (waSourceRow row)")
      case (Some message)
      from pushRow_error [OF assms(1,2) False Some, of pushTime t] assms(3)
      have "t' = t\<lparr>rowsConsidered := rowsConsidered t + 1,
          errors := errors t @ [''Row '' @ numToString (waSourceRow row) @ '': '' @ message]\<rparr>"
        by simp
      with False show ?thesis by simp
    next
      case None
      from pushRow_pushed [OF assms(1,2) False None, of pushTime t] assms(3)
      have r: "row' = (if waReadyToResolve row \<or> trim (waTemplate row) = label
                  then row\<lparr>waLastPushedAt := pushTime, waLastPushedText := trim (waComposedValue row), waGroup := ''Resolved''\<rparr>
                  else row\<lparr>waLastPushedAt := pushTime, waLastPushedText := trim (waComposedValue row)\<rparr>)"
        and t': "t' = t\<lparr>rowsConsidered := rowsConsidered t + 1, rowsPushed := rowsPushed t + 1\<rparr>"
        by simp_all
      have cv: "waComposedValue row' = waComposedValue row"
        by (rule waComposedValue_cong) (simp_all add: r)
      have lp: "waLastPushedText row' = trim (waComposedValue row)"
        by (simp add: r)
      have el: "waPushReady row' \<or> trim (waTemplate row') = label"
        using assms(2) by (auto simp: r)
      have ne: "trim (waComposedValue row') \<noteq> []"
        using assms(1) by (simp add: cv)
      have same: "removeWhiteSpace (toLowerCase (waComposedValue row'))
                  = removeWhiteSpace (toLowerCase (waLastPushedText row'))"
        by (simp add: cv lp normalized_trim)
      have again: "pushRow label pushTime2 row' (lrSheet', t')
              = (row', lrSheet', t'\<lparr>rowsConsidered := rowsConsidered t' + 1,
                                     rowsSkippedNoChange := rowsSkippedNoChange t' + 1\<rparr>)"
        by (rule pushRow_no_change [OF ne el same])
      from False cv lp again show ?thesis by (simp add: t')
    qed
  qed
qed

text \<open>
  The push of the worked example, and the same row pushed again the next evening.
\<close>

theorem duplicate_suppression_witness:
  "pushRow ''READY TO BE RESOLVED'' ''02/10/2026 9:15 AM ET'' respondedRow (blankLrSheet, emptyTally)
     = (pushedWorkingRow,
        blankLrSheet\<lparr>horizonComment := (horizonComment blankLrSheet)(2 := pushedComment)\<rparr>,
        \<lparr>rowsConsidered = 1, rowsPushed = 1, rowsSkippedNoChange = 0,
          rowsSkippedNotReady = 0, errors = []\<rparr>) \<and>
   pushRow ''READY TO BE RESOLVED'' ''02/11/2026 11:00 PM ET'' pushedWorkingRow
       (blankLrSheet\<lparr>horizonComment := (horizonComment blankLrSheet)(2 := pushedComment)\<rparr>,
        \<lparr>rowsConsidered = 1, rowsPushed = 1, rowsSkippedNoChange = 0,
          rowsSkippedNotReady = 0, errors = []\<rparr>)
     = (pushedWorkingRow,
        blankLrSheet\<lparr>horizonComment := (horizonComment blankLrSheet)(2 := pushedComment)\<rparr>,
        \<lparr>rowsConsidered = 2, rowsPushed = 1, rowsSkippedNoChange = 1,
          rowsSkippedNotReady = 0, errors = []\<rparr>)"
proof -
  have "rowsPushed \<lparr>rowsConsidered = 1, rowsPushed = 1, rowsSkippedNoChange = 0,
          rowsSkippedNotReady = 0, errors = []\<rparr> = rowsPushed emptyTally + 1"
    by (simp add: emptyTally_def)
  with duplicate_suppression [OF responded_facts(1,2) responded_push, of "''02/11/2026 11:00 PM ET''"]
  have "pushRow ''READY TO BE RESOLVED'' ''02/11/2026 11:00 PM ET'' pushedWorkingRow
       (blankLrSheet\<lparr>horizonComment := (horizonComment blankLrSheet)(2 := pushedComment)\<rparr>,
        \<lparr>rowsConsidered = 1, rowsPushed = 1, rowsSkippedNoChange = 0,
          rowsSkippedNotReady = 0, errors = []\<rparr>)
     = (pushedWorkingRow,
        blankLrSheet\<lparr>horizonComment := (horizonComment blankLrSheet)(2 := pushedComment)\<rparr>,
        \<lparr>rowsConsidered = 2, rowsPushed = 1, rowsSkippedNoChange = 1,
          rowsSkippedNotReady = 0, errors = []\<rparr>)"
    by simp
  with responded_push show ?thesis by simp
qed

section \<open>The life of one alert\<close>

text \<open>
  Claim C1 (second sync of a pushed record), evaluated on the code. The first sync puts
  the alert in group \<open>New\<close>; a person selects a template and ticks push-ready; the
  push appends the comment and records the text sent. The next sync does not make the
  group \<open>Ongoing\<close>: with the fetched row unchanged the group stays \<open>New\<close> (the stored
  group is copied), and with column F of the fetched row holding the pushed comment the
  row hash differs and the group is \<open>Updated\<close>.
\<close>

theorem second_sync_keeps_New:
  "map_option (map waGroup) (waSheet afterFirstSync) = Some [''New''] \<and>
   map_option (map waLastPushedText) (waSheet (fst afterPush)) = Some [''Investigating internally''] \<and>
   fst (snd afterPush)
     = LrTab (blankLrSheet\<lparr>horizonComment := (horizonComment blankLrSheet)(2 := pushedComment)\<rparr>) \<and>
   map_option (map waGroup) (waSheet (afterSecondSync [exampleRow])) = Some [''New''] \<and>
   map_option (map waGroup) (waSheet (afterSecondSync [commentedRow])) = Some [''Updated'']"
proof -
  have "map_option (map waGroup) (waSheet afterFirstSync) = Some [''New'']"
    by (simp add: afterFirstSync_value firstWorkingRow_def)
  moreover have "map_option (map waLastPushedText) (waSheet (fst afterPush))
                 = Some [''Investigating internally'']"
    by (simp add: afterPush_value pushedWorkingRow_def)
  moreover have "fst (snd afterPush)
     = LrTab (blankLrSheet\<lparr>horizonComment := (horizonComment blankLrSheet)(2 := pushedComment)\<rparr>)"
    by (simp add: afterPush_value)
  ultimately show ?thesis
    using afterSecondSync_unchanged afterSecondSync_commented by simp
qed

end
